theory Spec2Isabelle
  imports Main "HOL-Library.Multiset"
begin

section \<open>Data model (types.ts)\<close>

datatype suit = Hearts | Diamonds | Clubs | Spades

datatype rank = RA | R2 | R3 | R4 | R5 | R6 | R7 | R8 | R9 | R10 | RJ | RQ | RK

text \<open>\<^verbatim>\<open>interface Card { id: string; suit: Suit; rank: Rank }\<close>\<close>

record card =
  card_id :: string
  suit :: suit
  rank :: rank

datatype game_status = Waiting | Playing | SuitSelection | GameOver

datatype actor = Player | AI

text \<open>\<^verbatim>\<open>interface GameState\<close>; \<open>null\<close> is \<open>None\<close>.\<close>

record game_state =
  deck :: "card list"
  discardPile :: "card list"
  playerHand :: "card list"
  aiHand :: "card list"
  currentTurn :: actor
  status :: game_status
  winner :: "actor option"
  activeSuit :: "suit option"

text \<open>
  The component \<open>App\<close> holds two pieces of state the game logic writes: \<open>gameState\<close>
  and \<open>message\<close> (\<open>showRules\<close> is presentation only and is left out).
\<close>

record app =
  gameState :: game_state
  message :: string

text \<open>The value \<open>useState\<close> is given when the component mounts.\<close>

definition initialApp :: app where
  "initialApp =
     \<lparr>gameState = \<lparr>deck = [], discardPile = [], playerHand = [], aiHand = [],
        currentTurn = Player, status = Waiting, winner = None, activeSuit = None\<rparr>,
      message = ''Welcome to Lorrin Crazy Eights!''\<rparr>"

section \<open>Rule engine\<close>

text \<open>
  \<^verbatim>\<open>const topDiscard = gameState.discardPile[gameState.discardPile.length - 1]\<close>:
  reading index \<open>-1\<close> of an empty array gives \<open>undefined\<close>, here \<open>None\<close>.
\<close>

definition topDiscard :: "game_state \<Rightarrow> card option" where
  "topDiscard g = (if discardPile g = [] then None else Some (last (discardPile g)))"

text \<open>
  \<^verbatim>\<open>
  const isValidMove = (card: Card) => {
    if (card.rank === '8') return true;
    if (!topDiscard) return false;
    return card.suit === gameState.activeSuit || card.rank === topDiscard.rank;
  };\<close>
\<close>

definition isValidMove :: "game_state \<Rightarrow> card \<Rightarrow> bool" where
  "isValidMove g c =
     (if rank c = R8 then True
      else (case topDiscard g of
              None \<Rightarrow> False
            | Some t \<Rightarrow> Some (suit c) = activeSuit g \<or> rank c = rank t))"


section \<open>Deck builder and initialisation\<close>

text \<open>
  \<^verbatim>\<open>Array.prototype.findIndex\<close>: the index of the first element that satisfies the
  predicate, \<open>-1\<close> when there is none.
\<close>

fun findIndex :: "('a \<Rightarrow> bool) \<Rightarrow> 'a list \<Rightarrow> int" where
  "findIndex P [] = -1"
| "findIndex P (x # xs) =
     (if P x then 0 else (let i = findIndex P xs in if i = -1 then -1 else i + 1))"

text \<open>
  \<^verbatim>\<open>
  const initGame = useCallback(() => {
    const fullDeck = shuffleDeck(createDeck());
    const playerHand = fullDeck.splice(0, 8);
    const aiHand = fullDeck.splice(0, 8);
    let firstDiscardIdx = fullDeck.findIndex(c => c.rank !== '8');
    if (firstDiscardIdx === -1) firstDiscardIdx = 0;
    const discardPile = firstDiscardIdx !== -1 ? fullDeck.splice(firstDiscardIdx, 1) : [fullDeck.pop()!];
    setGameState({ deck: fullDeck, discardPile, playerHand, aiHand, currentTurn: 'player',
      status: 'playing', winner: null, activeSuit: discardPile[0].suit });
    setMessage("Your turn! Match the suit or rank.");
  }, []);\<close>

  \<open>createDeck\<close> and \<open>shuffleDeck\<close> live in \<open>./constants\<close>, which is not among the
  sources, and the shuffle is random: the shuffled deck is the parameter \<open>shuffled\<close>.
  \<open>splice(i, 1)\<close> removes the element at index \<open>i\<close> (nothing when \<open>i\<close> is out of range)
  and returns the removed elements. Reading \<open>.suit\<close> of \<open>discardPile[0]\<close> raises a
  TypeError when that entry is \<open>undefined\<close>; the result is then \<open>None\<close> and no state
  is set.
\<close>

definition initGame :: "card list \<Rightarrow> app option" where
  "initGame shuffled =
     (let playerHand0 = take 8 shuffled;
          fullDeck1 = drop 8 shuffled;
          aiHand0 = take 8 fullDeck1;
          fullDeck2 = drop 8 fullDeck1;
          idx0 = findIndex (\<lambda>c. rank c \<noteq> R8) fullDeck2;
          firstDiscardIdx = (if idx0 = -1 then 0 else idx0);
          (discardPile0, fullDeck3) =
            (if firstDiscardIdx \<noteq> -1
             then (take 1 (drop (nat firstDiscardIdx) fullDeck2),
                   take (nat firstDiscardIdx) fullDeck2 @ drop (nat firstDiscardIdx + 1) fullDeck2)
             else (if fullDeck2 = [] then [] else [last fullDeck2], butlast fullDeck2))
      in (case discardPile0 of
            [] \<Rightarrow> None
          | first # _ \<Rightarrow>
              Some \<lparr>gameState =
                      \<lparr>deck = fullDeck3, discardPile = discardPile0, playerHand = playerHand0,
                       aiHand = aiHand0, currentTurn = Player, status = Playing,
                       winner = None, activeSuit = Some (suit first)\<rparr>,
                    message = ''Your turn! Match the suit or rank.''\<rparr>))"

section \<open>Game state machine\<close>

text \<open>
  \<^verbatim>\<open>setGameState(prev => ...)\<close> queues an update that React applies to the state left
  by the updates queued before it in the same handler. A handler is modelled as one
  function on the state: \<open>prev\<close> of its first update is the state the handler read,
  and each later update works on the result of the one before.

  \<^verbatim>\<open>
  const checkWin = (hand: Card[], turn: 'player' | 'ai') => {
    if (hand.length === 0) {
      setGameState(prev => ({ ...prev, status: 'game_over', winner: turn }));
      return true;
    }
    return false;
  };\<close>
\<close>

definition checkWin :: "game_state \<Rightarrow> card list \<Rightarrow> actor \<Rightarrow> game_state \<times> bool" where
  "checkWin prev hand turn =
     (if length hand = 0 then (prev\<lparr>status := GameOver, winner := Some turn\<rparr>, True)
      else (prev, False))"

text \<open>
  \<^verbatim>\<open>
  const handleDraw = () => {
    if (gameState.currentTurn !== 'player' || gameState.status !== 'playing') return;
    if (gameState.deck.length === 0) {
      setMessage("Deck is empty! Skipping turn.");
      setTimeout(() => setGameState(prev => ({ ...prev, currentTurn: 'ai' })), 1000);
      return;
    }
    const newDeck = [...gameState.deck];
    const drawnCard = newDeck.pop()!;
    setGameState(prev => ({ ...prev, deck: newDeck,
      playerHand: [...prev.playerHand, drawnCard], currentTurn: 'ai' }));
    setMessage("You drew a card.");
  };\<close>

  With an empty deck the handler only sets the message; the turn passes when the timer
  fires, which is the separate transition \<open>skipTurnTimeout\<close>.
\<close>

definition handleDraw :: "app \<Rightarrow> app" where
  "handleDraw a =
     (let g = gameState a in
      if currentTurn g \<noteq> Player \<or> status g \<noteq> Playing then a
      else if length (deck g) = 0 then a\<lparr>message := ''Deck is empty! Skipping turn.''\<rparr>
      else a\<lparr>gameState := g\<lparr>deck := butlast (deck g),
                              playerHand := playerHand g @ [last (deck g)],
                              currentTurn := AI\<rparr>,
              message := ''You drew a card.''\<rparr>)"

definition skipTurnTimeout :: "app \<Rightarrow> app" where
  "skipTurnTimeout a = a\<lparr>gameState := (gameState a)\<lparr>currentTurn := AI\<rparr>\<rparr>"

text \<open>The computed key \<^verbatim>\<open>[isPlayer ? 'playerHand' : 'aiHand']: newHand\<close>.\<close>

definition setHand :: "bool \<Rightarrow> card list \<Rightarrow> game_state \<Rightarrow> game_state" where
  "setHand isPlayer newHand g =
     (if isPlayer then g\<lparr>playerHand := newHand\<rparr> else g\<lparr>aiHand := newHand\<rparr>)"

text \<open>
  \<^verbatim>\<open>
  const playCard = (card: Card, isPlayer: boolean) => {
    if (!isValidMove(card)) {
      if (isPlayer) setMessage("Invalid move! Match suit or rank, or play an 8.");
      return;
    }
    const newHand = (isPlayer ? gameState.playerHand : gameState.aiHand).filter(c => c.id !== card.id);
    const newDiscard = [...gameState.discardPile, card];
    if (card.rank === '8') {
      setGameState(prev => ({ ...prev, discardPile: newDiscard,
        [isPlayer ? 'playerHand' : 'aiHand']: newHand,
        status: isPlayer ? 'suit_selection' : prev.status,
        activeSuit: isPlayer ? prev.activeSuit : null }));
      if (isPlayer) setMessage("Crazy 8! Choose a new suit.");
    } else {
      const won = checkWin(newHand, isPlayer ? 'player' : 'ai');
      if (!won) {
        setGameState(prev => ({ ...prev, discardPile: newDiscard,
          [isPlayer ? 'playerHand' : 'aiHand']: newHand,
          currentTurn: isPlayer ? 'ai' : 'player', activeSuit: card.suit }));
        setMessage(isPlayer ? "AI's turn..." : "Your turn!");
      } else {
        setGameState(prev => ({ ...prev, discardPile: newDiscard,
          [isPlayer ? 'playerHand' : 'aiHand']: newHand }));
      }
    }
  };\<close>
\<close>

definition playCard :: "app \<Rightarrow> card \<Rightarrow> bool \<Rightarrow> app" where
  "playCard a c isPlayer =
     (let g = gameState a in
      if \<not> isValidMove g c
      then (if isPlayer then a\<lparr>message := ''Invalid move! Match suit or rank, or play an 8.''\<rparr>
            else a)
      else
        (let newHand = filter (\<lambda>x. card_id x \<noteq> card_id c)
                         (if isPlayer then playerHand g else aiHand g);
             newDiscard = discardPile g @ [c]
         in if rank c = R8
            then a\<lparr>gameState :=
                     (setHand isPlayer newHand (g\<lparr>discardPile := newDiscard\<rparr>))
                       \<lparr>status := (if isPlayer then SuitSelection else status g),
                        activeSuit := (if isPlayer then activeSuit g else None)\<rparr>,
                   message := (if isPlayer then ''Crazy 8! Choose a new suit.'' else message a)\<rparr>
            else
              (let (g1, won) = checkWin g newHand (if isPlayer then Player else AI)
               in if \<not> won
                  then a\<lparr>gameState :=
                           (setHand isPlayer newHand (g1\<lparr>discardPile := newDiscard\<rparr>))
                             \<lparr>currentTurn := (if isPlayer then AI else Player),
                              activeSuit := Some (suit c)\<rparr>,
                         message := (if isPlayer then ''AI's turn...'' else ''Your turn!'')\<rparr>
                  else a\<lparr>gameState :=
                           setHand isPlayer newHand (g1\<lparr>discardPile := newDiscard\<rparr>)\<rparr>)))"

text \<open>
  \<^verbatim>\<open>
  const handleSuitSelect = (suit: Suit) => {
    setGameState(prev => ({ ...prev, activeSuit: suit, status: 'playing', currentTurn: 'ai' }));
    setMessage(`Suit changed to ${suit}. AI's turn...`);
  };\<close>
\<close>

fun suitName :: "suit \<Rightarrow> string" where
  "suitName Hearts = ''hearts''"
| "suitName Diamonds = ''diamonds''"
| "suitName Clubs = ''clubs''"
| "suitName Spades = ''spades''"

definition handleSuitSelect :: "app \<Rightarrow> suit \<Rightarrow> app" where
  "handleSuitSelect a s =
     a\<lparr>gameState := (gameState a)\<lparr>activeSuit := Some s, status := Playing, currentTurn := AI\<rparr>,
       message := ''Suit changed to '' @ suitName s @ ''. AI's turn...''\<rparr>"


section \<open>Opponent policy\<close>

text \<open>
  \<^verbatim>\<open>
  const suitCounts: Record<Suit, number> = { hearts: 0, diamonds: 0, clubs: 0, spades: 0 };
  gameState.aiHand.forEach(c => { if(c.id !== cardToPlay.id) suitCounts[c.suit]++ });
  const bestSuit = (Object.keys(suitCounts) as Suit[]).reduce((a, b) => suitCounts[a] > suitCounts[b] ? a : b);\<close>

  \<open>Object.keys\<close> lists the keys in the order the literal gives them: hearts, diamonds,
  clubs, spades. \<open>reduce\<close> without an initial value starts with the first key as \<open>a\<close>
  and visits the other three as \<open>b\<close>, left to right.
\<close>

definition suitCounts :: "card list \<Rightarrow> card \<Rightarrow> suit \<Rightarrow> nat" where
  "suitCounts hand cardToPlay =
     fold (\<lambda>c m. if card_id c \<noteq> card_id cardToPlay then m(suit c := m (suit c) + 1) else m)
       hand (\<lambda>_. 0)"

definition bestSuit :: "card list \<Rightarrow> card \<Rightarrow> suit" where
  "bestSuit hand cardToPlay =
     (let counts = suitCounts hand cardToPlay
      in foldl (\<lambda>a b. if counts a > counts b then a else b) Hearts [Diamonds, Clubs, Spades])"

text \<open>
  The callback of the timer the AI effect sets (lines 290 to 341); the 1500 ms delay is
  pacing only. The effect sets the timer when
  \<^verbatim>\<open>gameState.currentTurn === 'ai' && gameState.status === 'playing' && !gameState.winner\<close>
  and React runs it again, clearing the timer, whenever the turn, the status, the AI
  hand or the deck changes, so the callback reads the state it was set in.

  \<^verbatim>\<open>
  const playableCards = gameState.aiHand.filter(isValidMove);
  if (playableCards.length > 0) {
    const nonEight = playableCards.find(c => c.rank !== '8');
    const cardToPlay = nonEight || playableCards[0];
    if (cardToPlay.rank === '8') {
      ... bestSuit ...
      const newHand = gameState.aiHand.filter(c => c.id !== cardToPlay.id);
      const newDiscard = [...gameState.discardPile, cardToPlay];
      const won = checkWin(newHand, 'ai');
      setGameState(prev => ({ ...prev, discardPile: newDiscard, aiHand: newHand,
        activeSuit: bestSuit, currentTurn: 'player' }));
      setMessage(`AI played an 8 and chose ${bestSuit}. Your turn!`);
    } else {
      playCard(cardToPlay, false);
    }
  } else {
    if (gameState.deck.length > 0) {
      const newDeck = [...gameState.deck];
      const drawnCard = newDeck.pop()!;
      setGameState(prev => ({ ...prev, deck: newDeck,
        aiHand: [...prev.aiHand, drawnCard], currentTurn: 'player' }));
      setMessage("AI drew a card. Your turn!");
    } else {
      setGameState(prev => ({ ...prev, currentTurn: 'player' }));
      setMessage("AI skipped turn. Your turn!");
    }
  }\<close>
\<close>

definition aiTurn :: "app \<Rightarrow> app" where
  "aiTurn a =
     (let g = gameState a in
      if currentTurn g = AI \<and> status g = Playing \<and> winner g = None
      then
        (let playableCards = filter (isValidMove g) (aiHand g)
         in if length playableCards > 0
            then
              (let nonEight = find (\<lambda>c. rank c \<noteq> R8) playableCards;
                   cardToPlay = (case nonEight of Some c \<Rightarrow> c | None \<Rightarrow> hd playableCards)
               in if rank cardToPlay = R8
                  then
                    (let best = bestSuit (aiHand g) cardToPlay;
                         newHand = filter (\<lambda>x. card_id x \<noteq> card_id cardToPlay) (aiHand g);
                         newDiscard = discardPile g @ [cardToPlay];
                         (g1, won) = checkWin g newHand AI
                     in a\<lparr>gameState := g1\<lparr>discardPile := newDiscard, aiHand := newHand,
                                            activeSuit := Some best, currentTurn := Player\<rparr>,
                          message := ''AI played an 8 and chose '' @ suitName best @ ''. Your turn!''\<rparr>)
                  else playCard a cardToPlay False)
            else if length (deck g) > 0
            then a\<lparr>gameState := g\<lparr>deck := butlast (deck g),
                                    aiHand := aiHand g @ [last (deck g)],
                                    currentTurn := Player\<rparr>,
                   message := ''AI drew a card. Your turn!''\<rparr>
            else a\<lparr>gameState := g\<lparr>currentTurn := Player\<rparr>,
                   message := ''AI skipped turn. Your turn!''\<rparr>)
      else a)"

section \<open>Intents of the presentation layer\<close>

text \<open>
  A card of the player's hand is rendered as
  \<^verbatim>\<open>
  <PlayingCard card={card} onClick={() => playCard(card, true)}
    disabled={gameState.currentTurn !== 'player' || gameState.status !== 'playing'} />\<close>
  and \<open>PlayingCard\<close> installs \<^verbatim>\<open>onClick={!disabled ? onClick : undefined}\<close>: a click
  on a disabled card runs nothing.
\<close>

definition clickHandCard :: "app \<Rightarrow> card \<Rightarrow> app" where
  "clickHandCard a c =
     (let g = gameState a in
      if currentTurn g \<noteq> Player \<or> status g \<noteq> Playing then a else playCard a c True)"

text \<open>
  The draw pile is rendered with \<^verbatim>\<open>onClick={handleDraw}\<close> and the same \<open>disabled\<close>
  expression.
\<close>

definition clickDrawPile :: "app \<Rightarrow> app" where
  "clickDrawPile a =
     (let g = gameState a in
      if currentTurn g \<noteq> Player \<or> status g \<noteq> Playing then a else handleDraw a)"

text \<open>
  The suit selector exists only while the status is \<open>suit_selection\<close>:
  \<^verbatim>\<open>{gameState.status === 'suit_selection' && (<SuitSelector onSelect={handleSuitSelect} />)}\<close>
  with one button per suit, \<^verbatim>\<open>onClick={() => onSelect(suit)}\<close>. In any other status
  there is no button to click, and the intent runs nothing; \<open>handleSuitSelect\<close> itself
  has no guard.
\<close>

definition clickSuit :: "app \<Rightarrow> suit \<Rightarrow> app" where
  "clickSuit a s = (if status (gameState a) = SuitSelection then handleSuitSelect a s else a)"

section \<open>Transitions and reachable states\<close>

text \<open>
  What can happen to a running application, apart from a restart: a click on a card,
  on the draw pile or on a suit button, the timer of the AI effect, and the timer
  \<open>handleDraw\<close> sets on an empty deck.
\<close>

datatype event = ClickCard card | ClickDraw | ClickSuit suit | AiTimer | SkipTimer

fun fire :: "app \<Rightarrow> event \<Rightarrow> app" where
  "fire a (ClickCard c) = clickHandCard a c"
| "fire a ClickDraw = clickDrawPile a"
| "fire a (ClickSuit s) = clickSuit a s"
| "fire a AiTimer = aiTurn a"
| "fire a SkipTimer = skipTurnTimeout a"

text \<open>
  Only the cards of the player's hand are rendered with a click handler
  (\<^verbatim>\<open>gameState.playerHand.map((card) => ...)\<close>). The timer of \<open>handleDraw\<close> is never
  cleared and may fire after other transitions, so it is enabled in every state, as
  are the events whose handlers carry their own guards.
\<close>

fun enabled :: "app \<Rightarrow> event \<Rightarrow> bool" where
  "enabled a (ClickCard c) = (c \<in> set (playerHand (gameState a)))"
| "enabled a _ = True"

text \<open>
  One transition, for a deck \<open>D\<close> that \<open>createDeck\<close> builds: a restart, where any
  permutation of \<open>D\<close> may come out of the shuffle, or an enabled event.
\<close>

inductive step :: "card list \<Rightarrow> app \<Rightarrow> app \<Rightarrow> bool" for D :: "card list" where
  restart: "mset shuffled = mset D \<Longrightarrow> initGame shuffled = Some a' \<Longrightarrow> step D a a'"
| event: "enabled a e \<Longrightarrow> step D a (fire a e)"

text \<open>
  The states after initialisation: \<open>initGame\<close> runs once when the component mounts
  (\<^verbatim>\<open>useEffect(() => { initGame(); }, [initGame])\<close>), then transitions follow.
\<close>

inductive reachable :: "card list \<Rightarrow> app \<Rightarrow> bool" for D :: "card list" where
  start: "mset shuffled = mset D \<Longrightarrow> initGame shuffled = Some a \<Longrightarrow> reachable D a"
| after: "reachable D a \<Longrightarrow> step D a a' \<Longrightarrow> reachable D a'"

text \<open>A sequence of events, each fired in the state the one before left.\<close>

fun run :: "app \<Rightarrow> event list \<Rightarrow> app" where
  "run a [] = a"
| "run a (e # es) = run (fire a e) es"

fun runnable :: "app \<Rightarrow> event list \<Rightarrow> bool" where
  "runnable a [] = True"
| "runnable a (e # es) = (enabled a e \<and> runnable (fire a e) es)"

definition allCards :: "game_state \<Rightarrow> card list" where
  "allCards g = deck g @ discardPile g @ playerHand g @ aiHand g"


section \<open>Notions of the specification\<close>

text \<open>
  The specification's count for the AI's choice of suit, in its own words: the number
  of "remaining AI-held cards (excluding the one being played)" of a suit. It is
  compared with \<open>suitCounts\<close>, the tally the code builds.
\<close>

definition remainingOfSuit :: "card list \<Rightarrow> card \<Rightarrow> suit \<Rightarrow> nat" where
  "remainingOfSuit hand played t =
     length (filter (\<lambda>c. card_id c \<noteq> card_id played \<and> suit c = t) hand)"

text \<open>The position of a suit in the enumeration order hearts, diamonds, clubs, spades.\<close>

fun suitOrder :: "suit \<Rightarrow> nat" where
  "suitOrder Hearts = 0"
| "suitOrder Diamonds = 1"
| "suitOrder Clubs = 2"
| "suitOrder Spades = 3"

section \<open>A concrete deck and concrete states\<close>

text \<open>
  Modelled from the spec: \<open>createDeck\<close> is defined in \<open>./constants\<close>, which is not
  among the sources. The spec has it produce "the 52 combinations of {4 suits} x {13
  ranks}, each tagged with a unique identifier; deterministic ordering (suit-major or
  rank-major, consistent)". The text of an identifier is not fixed there; here it is
  the rank, a dash and the suit, and the order is suit-major. The shuffles that
  \<open>initGame\<close> receives are the permutations of this deck.
\<close>

fun rankName :: "rank \<Rightarrow> string" where
  "rankName RA = ''A''"
| "rankName R2 = ''2''"
| "rankName R3 = ''3''"
| "rankName R4 = ''4''"
| "rankName R5 = ''5''"
| "rankName R6 = ''6''"
| "rankName R7 = ''7''"
| "rankName R8 = ''8''"
| "rankName R9 = ''9''"
| "rankName R10 = ''10''"
| "rankName RJ = ''J''"
| "rankName RQ = ''Q''"
| "rankName RK = ''K''"

definition mkCard :: "rank \<Rightarrow> suit \<Rightarrow> card" where
  "mkCard r s = \<lparr>card_id = rankName r @ ''-'' @ suitName s, suit = s, rank = r\<rparr>"


text \<open>
  The state after the component has mounted with the shuffle \<open>shuffled\<close>: what
  \<open>initGame\<close> sets, or the initial state when it raises.
\<close>

definition mount :: "card list \<Rightarrow> app" where
  "mount shuffled = (case initGame shuffled of Some a \<Rightarrow> a | None \<Rightarrow> initialApp)"

text \<open>
  A shuffle of the 52 cards in which the player is dealt eight hearts, the AI eight
  clubs and diamonds from ten to king, and the ten of hearts starts the discard pile.
  The seven cards at the end of the deck, which the AI draws first, are spades and
  nines. \<open>swapCards x y\<close> exchanges two cards of a deck.
\<close>

definition heartsDeck :: "card list" where
  "heartsDeck =
     [mkCard RA Hearts, mkCard R2 Hearts, mkCard R3 Hearts, mkCard R4 Hearts,
      mkCard R5 Hearts, mkCard R6 Hearts, mkCard R7 Hearts, mkCard R9 Hearts,
      mkCard R10 Clubs, mkCard RJ Clubs, mkCard RQ Clubs, mkCard RK Clubs,
      mkCard R10 Diamonds, mkCard RJ Diamonds, mkCard RQ Diamonds, mkCard RK Diamonds,
      mkCard R10 Hearts,
      mkCard R8 Hearts, mkCard RJ Hearts, mkCard RQ Hearts, mkCard RK Hearts,
      mkCard RA Diamonds, mkCard R2 Diamonds, mkCard R3 Diamonds, mkCard R4 Diamonds,
      mkCard R5 Diamonds, mkCard R6 Diamonds, mkCard R7 Diamonds, mkCard R8 Diamonds,
      mkCard RA Clubs, mkCard R2 Clubs, mkCard R3 Clubs, mkCard R4 Clubs,
      mkCard R5 Clubs, mkCard R6 Clubs, mkCard R7 Clubs, mkCard R8 Clubs,
      mkCard RA Spades, mkCard R2 Spades, mkCard R3 Spades, mkCard R4 Spades,
      mkCard R5 Spades, mkCard R6 Spades, mkCard R7 Spades, mkCard R8 Spades,
      mkCard R9 Diamonds, mkCard R9 Clubs, mkCard R9 Spades,
      mkCard R10 Spades, mkCard RJ Spades, mkCard RQ Spades, mkCard RK Spades]"

definition swapCards :: "card \<Rightarrow> card \<Rightarrow> card list \<Rightarrow> card list" where
  "swapCards x y d = map (\<lambda>c. if c = x then y else if c = y then x else c) d"

text \<open>
  The same shuffle with the nine of hearts and the eight of spades exchanged: the
  player's eighth card is an eight.
\<close>

definition eightLastDeck :: "card list" where
  "eightLastDeck = swapCards (mkCard R9 Hearts) (mkCard R8 Spades) heartsDeck"

text \<open>
  The player plays the hearts from ace to seven, in that order, and the AI's timer
  fires after each play.
\<close>

definition sevenHearts :: "event list" where
  "sevenHearts =
     concat (map (\<lambda>r. [ClickCard (mkCard r Hearts), AiTimer]) [RA, R2, R3, R4, R5, R6, R7])"

text \<open>
  The player holds a single card, the eight of hearts, and it is the player's turn.
\<close>

definition lastEightApp :: app where
  "lastEightApp =
     \<lparr>gameState =
        \<lparr>deck = [mkCard R5 Clubs, mkCard R9 Diamonds],
         discardPile = [mkCard RK Spades],
         playerHand = [mkCard R8 Hearts],
         aiHand = [mkCard R2 Hearts, mkCard R3 Diamonds],
         currentTurn = Player, status = Playing, winner = None, activeSuit = Some Spades\<rparr>,
      message = ''Your turn!''\<rparr>"

text \<open>
  The AI is to move on the king of spades. \<open>aiApp hand d\<close> gives it the hand \<open>hand\<close>
  and the deck \<open>d\<close>.
\<close>

definition aiApp :: "card list \<Rightarrow> card list \<Rightarrow> app" where
  "aiApp hand d =
     \<lparr>gameState =
        \<lparr>deck = d,
         discardPile = [mkCard R4 Clubs, mkCard RK Spades],
         playerHand = [mkCard R7 Hearts, mkCard RQ Clubs],
         aiHand = hand,
         currentTurn = AI, status = Playing, winner = None, activeSuit = Some Spades\<rparr>,
      message = ''AI's turn...''\<rparr>"

section \<open>The rule engine\<close>

lemmas ex_defs = mkCard_def lastEightApp_def aiApp_def

text \<open>
  C4. When a top discard card exists, \<open>isValidMove\<close> is true exactly when the card's
  rank is 8, or its suit is the active suit, or its rank is the rank of the top
  discard; it is false when none of the three holds.
\<close>

theorem isValidMove_iff:
  "topDiscard g = Some t \<Longrightarrow>
   isValidMove g c = (rank c = R8 \<or> Some (suit c) = activeSuit g \<or> rank c = rank t)"
  by (simp add: isValidMove_def)

theorem isValidMove_iff_witness:
  "topDiscard (gameState lastEightApp) = Some (mkCard RK Spades)
   \<and> isValidMove (gameState lastEightApp) (mkCard RK Diamonds)
   \<and> isValidMove (gameState lastEightApp) (mkCard R2 Spades)
   \<and> isValidMove (gameState lastEightApp) (mkCard R8 Diamonds)
   \<and> \<not> isValidMove (gameState lastEightApp) (mkCard R2 Hearts)"
proof -
  have t: "topDiscard (gameState lastEightApp) = Some (mkCard RK Spades)"
    by (simp add: topDiscard_def ex_defs)
  show ?thesis
    using t isValidMove_iff [OF t, of "mkCard RK Diamonds"]
      isValidMove_iff [OF t, of "mkCard R2 Spades"]
      isValidMove_iff [OF t, of "mkCard R8 Diamonds"]
      isValidMove_iff [OF t, of "mkCard R2 Hearts"]
    by (simp add: ex_defs)
qed

text \<open>
  C5, as the code has it. The test for rank 8 comes before the test for a missing top
  discard, so with an empty discard pile \<open>isValidMove\<close> is false for every card whose
  rank is not 8 and true for every card of rank 8.
\<close>

theorem isValidMove_no_top_discard:
  "discardPile g = [] \<Longrightarrow> isValidMove g c = (rank c = R8)"
  by (simp add: isValidMove_def topDiscard_def)

theorem isValidMove_no_top_discard_witness:
  "discardPile (gameState initialApp) = []
   \<and> isValidMove (gameState initialApp) (mkCard R2 Hearts) = False
   \<and> isValidMove (gameState initialApp) (mkCard R8 Spades) = True"
proof -
  have e: "discardPile (gameState initialApp) = []"
    by (simp add: initialApp_def)
  show ?thesis
    using e isValidMove_no_top_discard [OF e, of "mkCard R2 Hearts"]
      isValidMove_no_top_discard [OF e, of "mkCard R8 Spades"]
    by (simp add: mkCard_def)
qed

text \<open>
  C5 as stated fails: in the state the component starts in, the discard pile is empty
  and there is no top discard, yet the eight of hearts is a valid move.
\<close>

theorem isValidMove_eight_no_top_discard_counterexample:
  "discardPile (gameState initialApp) = []
   \<and> topDiscard (gameState initialApp) = None
   \<and> rank (mkCard R8 Hearts) = R8
   \<and> isValidMove (gameState initialApp) (mkCard R8 Hearts) = True"
  by (simp add: isValidMove_def topDiscard_def initialApp_def mkCard_def)

section \<open>Rejected intents\<close>

text \<open>
  C7. A play that is out of turn or made while the status is not \<open>playing\<close> changes
  nothing at all (the card is disabled). A play of a card for which \<open>isValidMove\<close> is
  false leaves the game state as it was: the player's attempt only sets the message,
  the AI's attempt (\<open>isPlayer\<close> false) sets nothing. The AI's timer does nothing
  when it is not the AI's turn or the status is not \<open>playing\<close>.
\<close>

theorem rejected_play_is_noop:
  "(currentTurn (gameState a) \<noteq> Player \<or> status (gameState a) \<noteq> Playing
      \<longrightarrow> clickHandCard a c = a)
   \<and> (\<not> isValidMove (gameState a) c
      \<longrightarrow> gameState (clickHandCard a c) = gameState a
        \<and> gameState (playCard a c isPlayer) = gameState a
        \<and> playCard a c False = a)
   \<and> (currentTurn (gameState a) \<noteq> AI \<or> status (gameState a) \<noteq> Playing
      \<longrightarrow> aiTurn a = a)"
  by (auto simp add: clickHandCard_def playCard_def aiTurn_def Let_def)

theorem rejected_play_is_noop_witness:
  "currentTurn (gameState (aiApp [mkCard R2 Hearts] [])) = AI
   \<and> clickHandCard (aiApp [mkCard R2 Hearts] []) (mkCard RQ Clubs) = aiApp [mkCard R2 Hearts] []
   \<and> status (gameState (aiTurn (aiApp [mkCard R8 Clubs] []))) = GameOver
   \<and> clickHandCard (aiTurn (aiApp [mkCard R8 Clubs] [])) (mkCard R7 Hearts)
       = aiTurn (aiApp [mkCard R8 Clubs] [])
   \<and> currentTurn (gameState (aiTurn (aiApp [mkCard R2 Hearts] []))) = Player
   \<and> status (gameState (aiTurn (aiApp [mkCard R2 Hearts] []))) = Playing
   \<and> isValidMove (gameState (aiTurn (aiApp [mkCard R2 Hearts] []))) (mkCard R7 Hearts) = False
   \<and> gameState (clickHandCard (aiTurn (aiApp [mkCard R2 Hearts] [])) (mkCard R7 Hearts))
       = gameState (aiTurn (aiApp [mkCard R2 Hearts] []))
   \<and> message (clickHandCard (aiTurn (aiApp [mkCard R2 Hearts] [])) (mkCard R7 Hearts))
       = ''Invalid move! Match suit or rank, or play an 8.''
   \<and> playCard (aiTurn (aiApp [mkCard R2 Hearts] [])) (mkCard R7 Hearts) False
       = aiTurn (aiApp [mkCard R2 Hearts] [])
   \<and> aiTurn (aiTurn (aiApp [mkCard R2 Hearts] [])) = aiTurn (aiApp [mkCard R2 Hearts] [])"
proof -
  let ?ai = "aiApp [mkCard R2 Hearts] []"
  let ?over = "aiTurn (aiApp [mkCard R8 Clubs] [])"
  let ?pl = "aiTurn (aiApp [mkCard R2 Hearts] [])"
  have t: "currentTurn (gameState ?ai) = AI"
    by (simp add: aiApp_def)
  have o: "status (gameState ?over) = GameOver"
    by code_simp
  have p: "currentTurn (gameState ?pl) = Player" "status (gameState ?pl) = Playing"
    by code_simp+
  have v: "isValidMove (gameState ?pl) (mkCard R7 Hearts) = False"
    by code_simp
  have m: "message (clickHandCard ?pl (mkCard R7 Hearts))
        = ''Invalid move! Match suit or rank, or play an 8.''"
    using v p by (simp add: clickHandCard_def playCard_def)
  show ?thesis
    using t o p v m
      rejected_play_is_noop [of ?ai "mkCard RQ Clubs"]
      rejected_play_is_noop [of ?over "mkCard R7 Hearts"]
      rejected_play_is_noop [of ?pl "mkCard R7 Hearts"]
    by simp
qed

text \<open>
  C8. The suit buttons exist only in status \<open>suit_selection\<close>: in every other status
  the suit-selection intent leaves the state unchanged, and in \<open>suit_selection\<close> it
  sets the active suit to the chosen suit, the status to \<open>playing\<close> and the turn to the
  AI, changing no other field of the game state.
\<close>

theorem clickSuit_only_in_suit_selection:
  "(status (gameState a) \<noteq> SuitSelection \<longrightarrow> clickSuit a s = a)
   \<and> (status (gameState a) = SuitSelection \<longrightarrow>
        gameState (clickSuit a s)
          = (gameState a)\<lparr>activeSuit := Some s, status := Playing, currentTurn := AI\<rparr>)"
  by (simp add: clickSuit_def handleSuitSelect_def)

theorem clickSuit_only_in_suit_selection_witness:
  "status (gameState lastEightApp) = Playing
   \<and> clickSuit lastEightApp Clubs = lastEightApp
   \<and> status (gameState (clickHandCard lastEightApp (mkCard R8 Hearts))) = SuitSelection
   \<and> gameState (clickSuit (clickHandCard lastEightApp (mkCard R8 Hearts)) Clubs)
       = (gameState (clickHandCard lastEightApp (mkCard R8 Hearts)))
           \<lparr>activeSuit := Some Clubs, status := Playing, currentTurn := AI\<rparr>"
proof -
  have p: "status (gameState lastEightApp) = Playing"
    by (simp add: lastEightApp_def)
  have s: "status (gameState (clickHandCard lastEightApp (mkCard R8 Hearts))) = SuitSelection"
    by (simp add: clickHandCard_def playCard_def isValidMove_def setHand_def
        lastEightApp_def mkCard_def)
  show ?thesis
    using p s clickSuit_only_in_suit_selection [of lastEightApp Clubs]
      clickSuit_only_in_suit_selection [of "clickHandCard lastEightApp (mkCard R8 Hearts)" Clubs]
    by simp
qed

section \<open>The opponent policy\<close>

subsection \<open>Lists\<close>

lemma find_filter: "find P (filter Q xs) = find (\<lambda>x. Q x \<and> P x) xs"
  by (induction xs) auto

lemma hd_filter_find: "find Q xs = Some c \<Longrightarrow> hd (filter Q xs) = c"
  by (induction xs) (auto split: if_splits)

lemma find_None_filter: "find Q xs = None \<longleftrightarrow> filter Q xs = []"
  by (induction xs) auto


lemma find_Some_props: "find P xs = Some c \<Longrightarrow> P c \<and> c \<in> set xs"
  by (induction xs) (auto split: if_splits)

lemma find_None_all: "find P xs = None \<Longrightarrow> x \<in> set xs \<Longrightarrow> \<not> P x"
  by (induction xs) (auto split: if_splits)

subsection \<open>The AI's play of an eight\<close>

lemma aiTurn_eight:
  assumes g: "currentTurn (gameState a) = AI" "status (gameState a) = Playing"
      "winner (gameState a) = None"
    and c: "find (isValidMove (gameState a)) (aiHand (gameState a)) = Some c"
    and n: "find (\<lambda>x. isValidMove (gameState a) x \<and> rank x \<noteq> R8) (aiHand (gameState a)) = None"
  shows "rank c = R8"
    and "gameState (aiTurn a) =
      (fst (checkWin (gameState a)
             (filter (\<lambda>x. card_id x \<noteq> card_id c) (aiHand (gameState a))) AI))
        \<lparr>discardPile := discardPile (gameState a) @ [c],
         aiHand := filter (\<lambda>x. card_id x \<noteq> card_id c) (aiHand (gameState a)),
         activeSuit := Some (bestSuit (aiHand (gameState a)) c),
         currentTurn := Player\<rparr>"
proof -
  from c have vc: "isValidMove (gameState a) c" and mem: "c \<in> set (aiHand (gameState a))"
    using find_Some_props by fastforce+
  from n mem vc show r: "rank c = R8"
    using find_None_all [OF n mem] by simp
  from c have ne: "filter (isValidMove (gameState a)) (aiHand (gameState a)) \<noteq> []"
    by (simp add: find_None_filter [symmetric])
  have h: "hd (filter (isValidMove (gameState a)) (aiHand (gameState a))) = c"
    by (rule hd_filter_find [OF c])
  have f: "find (\<lambda>x. rank x \<noteq> R8) (filter (isValidMove (gameState a)) (aiHand (gameState a))) = None"
    using n by (simp add: find_filter)
  show "gameState (aiTurn a) =
      (fst (checkWin (gameState a)
             (filter (\<lambda>x. card_id x \<noteq> card_id c) (aiHand (gameState a))) AI))
        \<lparr>discardPile := discardPile (gameState a) @ [c],
         aiHand := filter (\<lambda>x. card_id x \<noteq> card_id c) (aiHand (gameState a)),
         activeSuit := Some (bestSuit (aiHand (gameState a)) c),
         currentTurn := Player\<rparr>"
    using g ne h f r by (simp add: aiTurn_def Let_def split: prod.splits)
qed

subsection \<open>The suit tally\<close>

lemma fold_suitCounts:
  "fold (\<lambda>c m. if card_id c \<noteq> k then m(suit c := m (suit c) + 1) else m) hand m0 t
     = m0 t + length (filter (\<lambda>c. card_id c \<noteq> k \<and> suit c = t) hand)"
  by (induction hand arbitrary: m0) auto

lemma suitCounts_remainingOfSuit: "suitCounts hand played t = remainingOfSuit hand played t"
  by (simp add: suitCounts_def remainingOfSuit_def fold_suitCounts)

lemma bestSuit_max: "suitCounts hand played t \<le> suitCounts hand played (bestSuit hand played)"
  by (cases t) (simp_all add: bestSuit_def Let_def)

lemma bestSuit_last:
  "suitOrder (bestSuit hand played) < suitOrder t \<Longrightarrow>
   suitCounts hand played t < suitCounts hand played (bestSuit hand played)"
  by (cases t) (auto simp add: bestSuit_def Let_def split: if_splits)

subsection \<open>The AI's choice of suit\<close>

text \<open>
  C3, as the code has it. When the AI's turn comes and its first playable card \<open>c\<close>
  is an 8 with no playable card of another rank in the hand, the AI plays \<open>c\<close> and the
  new active suit \<open>s\<close> has the highest count among the AI's remaining cards (the
  played 8 excluded): no suit has more. Ties go to the last maximal suit in the order
  hearts, diamonds, clubs, spades: every suit after \<open>s\<close> in that order has strictly
  fewer cards, because the reduction keeps \<open>a\<close> only when its count is strictly
  greater than the count of \<open>b\<close>.
\<close>

theorem ai_eight_picks_last_maximal_suit:
  assumes "currentTurn (gameState a) = AI" "status (gameState a) = Playing"
      "winner (gameState a) = None"
    and "find (isValidMove (gameState a)) (aiHand (gameState a)) = Some c"
    and "find (\<lambda>x. isValidMove (gameState a) x \<and> rank x \<noteq> R8) (aiHand (gameState a)) = None"
  shows "rank c = R8
    \<and> discardPile (gameState (aiTurn a)) = discardPile (gameState a) @ [c]
    \<and> (\<exists>s. activeSuit (gameState (aiTurn a)) = Some s
          \<and> (\<forall>t. remainingOfSuit (aiHand (gameState a)) c t
                  \<le> remainingOfSuit (aiHand (gameState a)) c s)
          \<and> (\<forall>t. suitOrder s < suitOrder t \<longrightarrow>
                  remainingOfSuit (aiHand (gameState a)) c t
                    < remainingOfSuit (aiHand (gameState a)) c s))"
proof -
  note e = aiTurn_eight [OF assms]
  have "activeSuit (gameState (aiTurn a)) = Some (bestSuit (aiHand (gameState a)) c)"
    by (simp add: e(2))
  moreover have "discardPile (gameState (aiTurn a)) = discardPile (gameState a) @ [c]"
    by (simp add: e(2))
  ultimately show ?thesis
    using e(1) bestSuit_max [of "aiHand (gameState a)" c]
      bestSuit_last [of "aiHand (gameState a)" c]
    by (simp add: suitCounts_remainingOfSuit)
qed

theorem ai_eight_picks_last_maximal_suit_witness:
  "currentTurn (gameState (aiApp [mkCard R8 Clubs, mkCard R2 Hearts, mkCard R3 Diamonds] [])) = AI
   \<and> find (isValidMove (gameState (aiApp [mkCard R8 Clubs, mkCard R2 Hearts, mkCard R3 Diamonds] [])))
        [mkCard R8 Clubs, mkCard R2 Hearts, mkCard R3 Diamonds] = Some (mkCard R8 Clubs)
   \<and> activeSuit (gameState (aiTurn (aiApp [mkCard R8 Clubs, mkCard R2 Hearts, mkCard R3 Diamonds] [])))
        = Some Diamonds
   \<and> remainingOfSuit [mkCard R8 Clubs, mkCard R2 Hearts, mkCard R3 Diamonds] (mkCard R8 Clubs) Hearts
        \<le> remainingOfSuit [mkCard R8 Clubs, mkCard R2 Hearts, mkCard R3 Diamonds] (mkCard R8 Clubs) Diamonds
   \<and> remainingOfSuit [mkCard R8 Clubs, mkCard R2 Hearts, mkCard R3 Diamonds] (mkCard R8 Clubs) Clubs
        < remainingOfSuit [mkCard R8 Clubs, mkCard R2 Hearts, mkCard R3 Diamonds] (mkCard R8 Clubs) Diamonds"
proof -
  let ?h = "[mkCard R8 Clubs, mkCard R2 Hearts, mkCard R3 Diamonds]"
  let ?a = "aiApp ?h []"
  have g: "currentTurn (gameState ?a) = AI" "status (gameState ?a) = Playing"
    "winner (gameState ?a) = None" "aiHand (gameState ?a) = ?h"
    by (simp_all add: aiApp_def)
  have c: "find (isValidMove (gameState ?a)) (aiHand (gameState ?a)) = Some (mkCard R8 Clubs)"
    by (simp add: aiApp_def mkCard_def isValidMove_def topDiscard_def)
  have n: "find (\<lambda>x. isValidMove (gameState ?a) x \<and> rank x \<noteq> R8) (aiHand (gameState ?a)) = None"
    by (simp add: aiApp_def mkCard_def isValidMove_def topDiscard_def)
  have s: "activeSuit (gameState (aiTurn ?a)) = Some Diamonds"
    by (simp add: aiTurn_def aiApp_def mkCard_def isValidMove_def topDiscard_def
        bestSuit_def suitCounts_def checkWin_def Let_def)
  from ai_eight_picks_last_maximal_suit [OF g(1) g(2) g(3) c n] obtain s0
    where a: "activeSuit (gameState (aiTurn ?a)) = Some s0"
      and m: "\<forall>t. remainingOfSuit ?h (mkCard R8 Clubs) t \<le> remainingOfSuit ?h (mkCard R8 Clubs) s0"
      and l: "\<forall>t. suitOrder s0 < suitOrder t \<longrightarrow>
          remainingOfSuit ?h (mkCard R8 Clubs) t < remainingOfSuit ?h (mkCard R8 Clubs) s0"
    by (auto simp add: g(4))
  from a s have d: "s0 = Diamonds" by simp
  have le: "remainingOfSuit ?h (mkCard R8 Clubs) Hearts \<le> remainingOfSuit ?h (mkCard R8 Clubs) Diamonds"
    using m d by simp
  have lt: "remainingOfSuit ?h (mkCard R8 Clubs) Clubs < remainingOfSuit ?h (mkCard R8 Clubs) Diamonds"
    using l [rule_format, of Clubs] d by simp
  show ?thesis
    using g(1) c [unfolded g(4)] s le lt by simp
qed

text \<open>
  C3 as stated fails. The AI holds the eight of clubs, the two of hearts and the three
  of diamonds, and only the eight is playable on the king of spades. Hearts and
  diamonds both count one remaining card, clubs and spades none: the first maximal
  suit in the enumeration order is hearts, and the AI chooses diamonds.
\<close>

theorem ai_eight_first_maximal_suit_counterexample:
  "activeSuit (gameState (aiTurn (aiApp [mkCard R8 Clubs, mkCard R2 Hearts, mkCard R3 Diamonds] [])))
      = Some Diamonds
   \<and> remainingOfSuit [mkCard R8 Clubs, mkCard R2 Hearts, mkCard R3 Diamonds] (mkCard R8 Clubs) Hearts = 1
   \<and> remainingOfSuit [mkCard R8 Clubs, mkCard R2 Hearts, mkCard R3 Diamonds] (mkCard R8 Clubs) Diamonds = 1
   \<and> remainingOfSuit [mkCard R8 Clubs, mkCard R2 Hearts, mkCard R3 Diamonds] (mkCard R8 Clubs) Clubs = 0
   \<and> remainingOfSuit [mkCard R8 Clubs, mkCard R2 Hearts, mkCard R3 Diamonds] (mkCard R8 Clubs) Spades = 0"
  by (simp add: aiTurn_def aiApp_def mkCard_def isValidMove_def topDiscard_def
        bestSuit_def suitCounts_def checkWin_def remainingOfSuit_def Let_def)

subsection \<open>The AI's move\<close>

lemma aiTurn_non_eight:
  assumes g: "currentTurn (gameState a) = AI" "status (gameState a) = Playing"
      "winner (gameState a) = None"
    and c: "find (\<lambda>x. isValidMove (gameState a) x \<and> rank x \<noteq> R8) (aiHand (gameState a)) = Some c"
  shows "aiTurn a = playCard a c False"
proof -
  have f: "find (\<lambda>x. rank x \<noteq> R8) (filter (isValidMove (gameState a)) (aiHand (gameState a))) = Some c"
    using c by (simp add: find_filter)
  then have ne: "filter (isValidMove (gameState a)) (aiHand (gameState a)) \<noteq> []"
    by (cases "filter (isValidMove (gameState a)) (aiHand (gameState a))") auto
  from c have r: "rank c \<noteq> R8"
    using find_Some_props by fastforce
  show ?thesis
    using g f ne r by (simp add: aiTurn_def Let_def)
qed

lemma playCard_accepted_cards:
  assumes "isValidMove (gameState a) c" "rank c \<noteq> R8"
  shows "discardPile (gameState (playCard a c False)) = discardPile (gameState a) @ [c]"
    and "aiHand (gameState (playCard a c False))
          = filter (\<lambda>x. card_id x \<noteq> card_id c) (aiHand (gameState a))"
    and "deck (gameState (playCard a c False)) = deck (gameState a)"
    and "playerHand (gameState (playCard a c False)) = playerHand (gameState a)"
  using assms by (simp_all add: playCard_def checkWin_def setHand_def Let_def)

text \<open>
  C9. On the AI's turn in status \<open>playing\<close> (with no winner, which the effect tests
  too and which \<open>playing_no_winner\<close> below derives from the status in every reachable
  state): if the hand has a playable card of a rank other than 8, the AI plays the
  first such card in hand order, through \<open>playCard\<close>; if the playable cards are all
  eights, it plays the first playable card in hand order; playing a card moves it from
  the AI's hand to the top of the discard pile. If no card is playable and the deck is
  not empty, the AI draws the top card of the deck, its hand grows by one and the turn
  passes to the player; if the deck is empty only the turn changes.
\<close>

theorem aiTurn_policy:
  assumes g: "currentTurn (gameState a) = AI" "status (gameState a) = Playing"
      "winner (gameState a) = None"
  shows
    "(\<forall>c. find (\<lambda>x. isValidMove (gameState a) x \<and> rank x \<noteq> R8) (aiHand (gameState a)) = Some c
        \<longrightarrow> aiTurn a = playCard a c False
          \<and> discardPile (gameState (aiTurn a)) = discardPile (gameState a) @ [c]
          \<and> aiHand (gameState (aiTurn a))
              = filter (\<lambda>x. card_id x \<noteq> card_id c) (aiHand (gameState a))
          \<and> deck (gameState (aiTurn a)) = deck (gameState a)
          \<and> playerHand (gameState (aiTurn a)) = playerHand (gameState a))
     \<and> (\<forall>c. find (\<lambda>x. isValidMove (gameState a) x \<and> rank x \<noteq> R8) (aiHand (gameState a)) = None
          \<and> find (isValidMove (gameState a)) (aiHand (gameState a)) = Some c
        \<longrightarrow> rank c = R8
          \<and> discardPile (gameState (aiTurn a)) = discardPile (gameState a) @ [c]
          \<and> aiHand (gameState (aiTurn a))
              = filter (\<lambda>x. card_id x \<noteq> card_id c) (aiHand (gameState a))
          \<and> deck (gameState (aiTurn a)) = deck (gameState a)
          \<and> playerHand (gameState (aiTurn a)) = playerHand (gameState a))
     \<and> (find (isValidMove (gameState a)) (aiHand (gameState a)) = None \<and> deck (gameState a) \<noteq> []
        \<longrightarrow> gameState (aiTurn a)
              = (gameState a)\<lparr>deck := butlast (deck (gameState a)),
                   aiHand := aiHand (gameState a) @ [last (deck (gameState a))],
                   currentTurn := Player\<rparr>
          \<and> length (aiHand (gameState (aiTurn a))) = length (aiHand (gameState a)) + 1)
     \<and> (find (isValidMove (gameState a)) (aiHand (gameState a)) = None \<and> deck (gameState a) = []
        \<longrightarrow> gameState (aiTurn a) = (gameState a)\<lparr>currentTurn := Player\<rparr>)"
proof (intro conjI allI impI)
  fix c
  assume c: "find (\<lambda>x. isValidMove (gameState a) x \<and> rank x \<noteq> R8) (aiHand (gameState a)) = Some c"
  then have v: "isValidMove (gameState a) c" and r: "rank c \<noteq> R8"
    using find_Some_props by fastforce+
  show e: "aiTurn a = playCard a c False"
    by (rule aiTurn_non_eight [OF g c])
  show "discardPile (gameState (aiTurn a)) = discardPile (gameState a) @ [c]"
    and "aiHand (gameState (aiTurn a)) = filter (\<lambda>x. card_id x \<noteq> card_id c) (aiHand (gameState a))"
    and "deck (gameState (aiTurn a)) = deck (gameState a)"
    and "playerHand (gameState (aiTurn a)) = playerHand (gameState a)"
    by (simp_all add: e playCard_accepted_cards [OF v r])
next
  fix c
  assume h: "find (\<lambda>x. isValidMove (gameState a) x \<and> rank x \<noteq> R8) (aiHand (gameState a)) = None
    \<and> find (isValidMove (gameState a)) (aiHand (gameState a)) = Some c"
  note e = aiTurn_eight [OF g conjunct2 [OF h] conjunct1 [OF h]]
  show "rank c = R8" by (rule e(1))
  show "discardPile (gameState (aiTurn a)) = discardPile (gameState a) @ [c]"
    and "aiHand (gameState (aiTurn a)) = filter (\<lambda>x. card_id x \<noteq> card_id c) (aiHand (gameState a))"
    and "deck (gameState (aiTurn a)) = deck (gameState a)"
    and "playerHand (gameState (aiTurn a)) = playerHand (gameState a)"
    by (simp_all add: e(2) checkWin_def)
next
  assume h: "find (isValidMove (gameState a)) (aiHand (gameState a)) = None \<and> deck (gameState a) \<noteq> []"
  then have f: "filter (isValidMove (gameState a)) (aiHand (gameState a)) = []"
    by (simp add: find_None_filter)
  show d: "gameState (aiTurn a)
              = (gameState a)\<lparr>deck := butlast (deck (gameState a)),
                   aiHand := aiHand (gameState a) @ [last (deck (gameState a))],
                   currentTurn := Player\<rparr>"
    using g h f by (simp add: aiTurn_def Let_def)
  show "length (aiHand (gameState (aiTurn a))) = length (aiHand (gameState a)) + 1"
    by (simp add: d)
next
  assume h: "find (isValidMove (gameState a)) (aiHand (gameState a)) = None \<and> deck (gameState a) = []"
  then have f: "filter (isValidMove (gameState a)) (aiHand (gameState a)) = []"
    by (simp add: find_None_filter)
  show "gameState (aiTurn a) = (gameState a)\<lparr>currentTurn := Player\<rparr>"
    using g h f by (simp add: aiTurn_def Let_def)
qed

theorem aiTurn_policy_witness:
  "find (\<lambda>x. isValidMove (gameState (aiApp [mkCard R8 Clubs, mkCard R2 Hearts, mkCard RK Diamonds, mkCard R3 Spades] [])) x \<and> rank x \<noteq> R8)
      [mkCard R8 Clubs, mkCard R2 Hearts, mkCard RK Diamonds, mkCard R3 Spades] = Some (mkCard RK Diamonds)
   \<and> discardPile (gameState (aiTurn (aiApp [mkCard R8 Clubs, mkCard R2 Hearts, mkCard RK Diamonds, mkCard R3 Spades] [])))
       = [mkCard R4 Clubs, mkCard RK Spades, mkCard RK Diamonds]
   \<and> aiHand (gameState (aiTurn (aiApp [mkCard R8 Clubs, mkCard R2 Hearts, mkCard RK Diamonds, mkCard R3 Spades] [])))
       = [mkCard R8 Clubs, mkCard R2 Hearts, mkCard R3 Spades]
   \<and> find (isValidMove (gameState (aiApp [mkCard R8 Clubs, mkCard R2 Hearts, mkCard R3 Diamonds] [])))
      [mkCard R8 Clubs, mkCard R2 Hearts, mkCard R3 Diamonds] = Some (mkCard R8 Clubs)
   \<and> discardPile (gameState (aiTurn (aiApp [mkCard R8 Clubs, mkCard R2 Hearts, mkCard R3 Diamonds] [])))
       = [mkCard R4 Clubs, mkCard RK Spades, mkCard R8 Clubs]
   \<and> aiHand (gameState (aiTurn (aiApp [mkCard R8 Clubs, mkCard R2 Hearts, mkCard R3 Diamonds] [])))
       = [mkCard R2 Hearts, mkCard R3 Diamonds]
   \<and> find (isValidMove (gameState (aiApp [mkCard R2 Hearts, mkCard R3 Diamonds] [mkCard R5 Clubs])))
      [mkCard R2 Hearts, mkCard R3 Diamonds] = None
   \<and> aiHand (gameState (aiTurn (aiApp [mkCard R2 Hearts, mkCard R3 Diamonds] [mkCard R5 Clubs])))
       = [mkCard R2 Hearts, mkCard R3 Diamonds, mkCard R5 Clubs]
   \<and> deck (gameState (aiTurn (aiApp [mkCard R2 Hearts, mkCard R3 Diamonds] [mkCard R5 Clubs]))) = []
   \<and> currentTurn (gameState (aiTurn (aiApp [mkCard R2 Hearts, mkCard R3 Diamonds] [mkCard R5 Clubs]))) = Player
   \<and> gameState (aiTurn (aiApp [mkCard R2 Hearts, mkCard R3 Diamonds] []))
       = (gameState (aiApp [mkCard R2 Hearts, mkCard R3 Diamonds] []))\<lparr>currentTurn := Player\<rparr>"
proof -
  let ?h1 = "[mkCard R8 Clubs, mkCard R2 Hearts, mkCard RK Diamonds, mkCard R3 Spades]"
  let ?h2 = "[mkCard R8 Clubs, mkCard R2 Hearts, mkCard R3 Diamonds]"
  let ?h3 = "[mkCard R2 Hearts, mkCard R3 Diamonds]"
  have g: "currentTurn (gameState (aiApp h d)) = AI" "status (gameState (aiApp h d)) = Playing"
    "winner (gameState (aiApp h d)) = None" for h d
    by (simp_all add: aiApp_def)
  have s: "aiHand (gameState (aiApp h d)) = h" "deck (gameState (aiApp h d)) = d"
    "discardPile (gameState (aiApp h d)) = [mkCard R4 Clubs, mkCard RK Spades]" for h d
    by (simp_all add: aiApp_def)
  have v: "isValidMove (gameState (aiApp h d)) (mkCard R8 Clubs) = True"
    "isValidMove (gameState (aiApp h d)) (mkCard R2 Hearts) = False"
    "isValidMove (gameState (aiApp h d)) (mkCard R3 Diamonds) = False"
    "isValidMove (gameState (aiApp h d)) (mkCard RK Diamonds) = True"
    "isValidMove (gameState (aiApp h d)) (mkCard R3 Spades) = True"
    for h d
    by (simp_all add: isValidMove_def topDiscard_def aiApp_def mkCard_def)
  have r: "rank (mkCard x y) = x" for x y
    by (simp add: mkCard_def)
  have f1: "find (\<lambda>x. isValidMove (gameState (aiApp ?h1 [])) x \<and> rank x \<noteq> R8)
      (aiHand (gameState (aiApp ?h1 []))) = Some (mkCard RK Diamonds)"
    by (simp add: s v r)
  have f2: "find (\<lambda>x. isValidMove (gameState (aiApp ?h2 [])) x \<and> rank x \<noteq> R8)
      (aiHand (gameState (aiApp ?h2 []))) = None
    \<and> find (isValidMove (gameState (aiApp ?h2 []))) (aiHand (gameState (aiApp ?h2 [])))
        = Some (mkCard R8 Clubs)"
    by (simp add: s v r)
  have f3: "find (isValidMove (gameState (aiApp ?h3 [mkCard R5 Clubs])))
      (aiHand (gameState (aiApp ?h3 [mkCard R5 Clubs]))) = None
    \<and> deck (gameState (aiApp ?h3 [mkCard R5 Clubs])) \<noteq> []"
    by (simp add: s v)
  have f4: "find (isValidMove (gameState (aiApp ?h3 []))) (aiHand (gameState (aiApp ?h3 []))) = None
    \<and> deck (gameState (aiApp ?h3 [])) = []"
    by (simp add: s v)
  note p1 = aiTurn_policy [OF g, of ?h1 "[]", THEN conjunct1, rule_format, OF f1, THEN conjunct2]
  note p2 = aiTurn_policy [OF g, of ?h2 "[]", THEN conjunct2, THEN conjunct1, rule_format, OF f2]
  note p3 = aiTurn_policy [OF g, of ?h3 "[mkCard R5 Clubs]", THEN conjunct2, THEN conjunct2,
      THEN conjunct1, rule_format, OF f3]
  note p4 = aiTurn_policy [OF g, of ?h3 "[]", THEN conjunct2, THEN conjunct2, THEN conjunct2,
      rule_format, OF f4]
  have i: "card_id (mkCard x y) = rankName x @ ''-'' @ suitName y" for x y
    by (simp add: mkCard_def)
  have a1: "discardPile (gameState (aiTurn (aiApp ?h1 [])))
       = [mkCard R4 Clubs, mkCard RK Spades, mkCard RK Diamonds]"
    using p1 by (simp add: s)
  have a2: "aiHand (gameState (aiTurn (aiApp ?h1 []))) = [mkCard R8 Clubs, mkCard R2 Hearts, mkCard R3 Spades]"
    using p1 by (simp add: s i)
  have b1: "discardPile (gameState (aiTurn (aiApp ?h2 [])))
       = [mkCard R4 Clubs, mkCard RK Spades, mkCard R8 Clubs]"
    using p2 by (simp add: s)
  have b2: "aiHand (gameState (aiTurn (aiApp ?h2 []))) = [mkCard R2 Hearts, mkCard R3 Diamonds]"
    using p2 by (simp add: s i)
  have c1: "aiHand (gameState (aiTurn (aiApp ?h3 [mkCard R5 Clubs])))
       = [mkCard R2 Hearts, mkCard R3 Diamonds, mkCard R5 Clubs]"
    and c2: "deck (gameState (aiTurn (aiApp ?h3 [mkCard R5 Clubs]))) = []"
    and c3: "currentTurn (gameState (aiTurn (aiApp ?h3 [mkCard R5 Clubs]))) = Player"
    using p3 by (simp_all add: s)
  show ?thesis
    using f1 [unfolded s] f2 [unfolded s] f3 [unfolded s] a1 a2 b1 b2 c1 c2 c3 p4
    by simp
qed


section \<open>Initialisation\<close>

lemma findIndex_takeWhile:
  "findIndex P xs = (if \<exists>x\<in>set xs. P x then int (length (takeWhile (\<lambda>x. \<not> P x) xs)) else -1)"
  by (induction xs) (auto simp add: Let_def)

lemma find_split:
  assumes "find P r = Some c"
  shows "findIndex P r = int (length (takeWhile (\<lambda>x. \<not> P x) r))"
    and "take 1 (drop (length (takeWhile (\<lambda>x. \<not> P x) r)) r) = [c]"
    and "take (length (takeWhile (\<lambda>x. \<not> P x) r)) r
           @ drop (Suc (length (takeWhile (\<lambda>x. \<not> P x) r))) r
         = takeWhile (\<lambda>x. \<not> P x) r @ tl (dropWhile (\<lambda>x. \<not> P x) r)"
  using assms by (induction r) (auto split: if_splits simp add: Let_def findIndex_takeWhile)

lemma find_none_index:
  assumes "find P r = None"
  shows "findIndex P r = -1"
  using assms by (induction r) (auto split: if_splits simp add: Let_def)

lemma initGame_found:
  assumes f: "find (\<lambda>x. rank x \<noteq> R8) (drop 8 (drop 8 shuffled)) = Some c"
  shows "initGame shuffled =
    Some \<lparr>gameState =
            \<lparr>deck = takeWhile (\<lambda>x. rank x = R8) (drop 8 (drop 8 shuffled))
                     @ tl (dropWhile (\<lambda>x. rank x = R8) (drop 8 (drop 8 shuffled))),
             discardPile = [c], playerHand = take 8 shuffled,
             aiHand = take 8 (drop 8 shuffled), currentTurn = Player, status = Playing,
             winner = None, activeSuit = Some (suit c)\<rparr>,
          message = ''Your turn! Match the suit or rank.''\<rparr>"
  using find_split [OF f]
  by (simp add: initGame_def Let_def del: drop_drop)

lemma initGame_all_eights:
  assumes f: "find (\<lambda>x. rank x \<noteq> R8) (drop 8 (drop 8 shuffled)) = None"
    and ne: "drop 8 (drop 8 shuffled) = c # cs"
  shows "initGame shuffled =
    Some \<lparr>gameState =
            \<lparr>deck = cs,
             discardPile = [c], playerHand = take 8 shuffled,
             aiHand = take 8 (drop 8 shuffled), currentTurn = Player, status = Playing,
             winner = None, activeSuit = Some (suit c)\<rparr>,
          message = ''Your turn! Match the suit or rank.''\<rparr>"
  using find_none_index [OF f] ne
  by (simp add: initGame_def Let_def del: drop_drop)

subsection \<open>Shuffles of the 52 cards\<close>








section \<open>The partition of the cards\<close>

lemma filter_id_mset:
  "c \<in> set xs \<Longrightarrow> distinct (map card_id xs) \<Longrightarrow>
   mset xs = add_mset c (mset (filter (\<lambda>x. card_id x \<noteq> card_id c) xs))"
proof (induction xs)
  case Nil
  then show ?case by simp
next
  case (Cons x xs)
  show ?case
  proof (cases "x = c")
    case True
    from Cons.prems have "\<forall>y\<in>set xs. card_id y \<noteq> card_id c"
      using True by (auto simp add: image_iff)
    then have "filter (\<lambda>x. card_id x \<noteq> card_id c) xs = xs"
      by (simp add: filter_id_conv)
    then show ?thesis using True by simp
  next
    case False
    with Cons.prems have m: "c \<in> set xs" and d: "distinct (map card_id xs)"
      and n: "card_id x \<noteq> card_id c"
      by auto
    show ?thesis
      using Cons.IH [OF m d] n by simp
  qed
qed

lemma distinct_ids_mset:
  "mset xs = mset ys \<Longrightarrow> distinct (map card_id xs) = distinct (map card_id ys)"
proof -
  assume "mset xs = mset ys"
  then have "mset (map card_id xs) = mset (map card_id ys)"
    by simp
  then show ?thesis
    by (rule mset_eq_imp_distinct_iff)
qed

lemma move_from_player:
  "mset hand = add_mset c (mset nh) \<Longrightarrow>
   mset (d @ (p @ [c]) @ nh @ other) = mset (d @ p @ hand @ other)"
  by simp

lemma move_from_ai:
  "mset hand = add_mset c (mset nh) \<Longrightarrow>
   mset (d @ (p @ [c]) @ other @ nh) = mset (d @ p @ other @ hand)"
  by simp

lemma playCard_fields:
  assumes "isValidMove (gameState a) c"
  shows "deck (gameState (playCard a c p)) = deck (gameState a)"
    and "discardPile (gameState (playCard a c p)) = discardPile (gameState a) @ [c]"
    and "playerHand (gameState (playCard a c p))
          = (if p then filter (\<lambda>x. card_id x \<noteq> card_id c) (playerHand (gameState a))
             else playerHand (gameState a))"
    and "aiHand (gameState (playCard a c p))
          = (if p then aiHand (gameState a)
             else filter (\<lambda>x. card_id x \<noteq> card_id c) (aiHand (gameState a)))"
  using assms by (simp_all add: playCard_def checkWin_def setHand_def Let_def)

lemma playCard_invalid: "\<not> isValidMove (gameState a) c \<Longrightarrow> gameState (playCard a c p) = gameState a"
  by (simp add: playCard_def)

lemma playCard_cards:
  assumes m: "c \<in> set (if p then playerHand (gameState a) else aiHand (gameState a))"
    and d: "distinct (map card_id (allCards (gameState a)))"
  shows "mset (allCards (gameState (playCard a c p))) = mset (allCards (gameState a))"
proof (cases "isValidMove (gameState a) c")
  case False
  then show ?thesis by (simp add: playCard_invalid)
next
  case True
  note f = playCard_fields [OF True, of p]
  show ?thesis
  proof (cases p)
    case True
    from d have dh: "distinct (map card_id (playerHand (gameState a)))"
      by (simp add: allCards_def)
    from m True have mh: "c \<in> set (playerHand (gameState a))"
      by simp
    have "mset (playerHand (gameState a))
        = add_mset c (mset (filter (\<lambda>x. card_id x \<noteq> card_id c) (playerHand (gameState a))))"
      by (rule filter_id_mset [OF mh dh])
    then show ?thesis
      unfolding allCards_def f using True by (simp only: if_True move_from_player)
  next
    case False
    from d have dh: "distinct (map card_id (aiHand (gameState a)))"
      by (simp add: allCards_def)
    from m False have mh: "c \<in> set (aiHand (gameState a))"
      by simp
    have "mset (aiHand (gameState a))
        = add_mset c (mset (filter (\<lambda>x. card_id x \<noteq> card_id c) (aiHand (gameState a))))"
      by (rule filter_id_mset [OF mh dh])
    then show ?thesis
      unfolding allCards_def f using False by (simp only: if_False move_from_ai)
  qed
qed

lemma clickHandCard_cards:
  "c \<in> set (playerHand (gameState a)) \<Longrightarrow> distinct (map card_id (allCards (gameState a))) \<Longrightarrow>
   mset (allCards (gameState (clickHandCard a c))) = mset (allCards (gameState a))"
  by (simp add: clickHandCard_def Let_def playCard_cards)

lemma draw_top:
  "d \<noteq> [] \<Longrightarrow> mset d = add_mset (last d) (mset (butlast d))"
proof -
  assume "d \<noteq> []"
  then have "mset (butlast d @ [last d]) = mset d"
    by simp
  then show ?thesis
    by simp
qed

lemma handleDraw_cards:
  "mset (allCards (gameState (handleDraw a))) = mset (allCards (gameState a))"
proof (cases "deck (gameState a) = []")
  case True
  then show ?thesis by (simp add: handleDraw_def Let_def)
next
  case False
  then show ?thesis
    using draw_top [OF False] by (simp add: handleDraw_def allCards_def Let_def)
qed

lemma clickDrawPile_cards:
  "mset (allCards (gameState (clickDrawPile a))) = mset (allCards (gameState a))"
  by (simp add: clickDrawPile_def Let_def handleDraw_cards)

lemma skipTurnTimeout_cards: "allCards (gameState (skipTurnTimeout a)) = allCards (gameState a)"
  by (simp add: skipTurnTimeout_def allCards_def)

lemma clickSuit_cards: "allCards (gameState (clickSuit a s)) = allCards (gameState a)"
  by (simp add: clickSuit_def handleSuitSelect_def allCards_def)


lemma find_mset:
  "find P r = Some c \<Longrightarrow>
   mset r = add_mset c (mset (takeWhile (\<lambda>x. \<not> P x) r @ tl (dropWhile (\<lambda>x. \<not> P x) r)))"
  by (induction r) (auto split: if_splits)

lemma deal_mset:
  "mset (take 8 s) + mset (take 8 (drop 8 s)) + mset (drop 8 (drop 8 s)) = mset s"
proof -
  have "mset (take 8 s @ take 8 (drop 8 s) @ drop 8 (drop 8 s)) = mset s"
    by (simp only: append_take_drop_id)
  then show ?thesis
    by (simp only: mset_append add.assoc)
qed

lemma initGame_empty: "drop 8 (drop 8 shuffled) = [] \<Longrightarrow> initGame shuffled = None"
  by (simp add: initGame_def Let_def del: drop_drop)

lemma initGame_cards:
  assumes "initGame shuffled = Some a"
  shows "mset (allCards (gameState a)) = mset shuffled"
proof (cases "find (\<lambda>x. rank x \<noteq> R8) (drop 8 (drop 8 shuffled))")
  case (Some c)
  have "mset (drop 8 (drop 8 shuffled))
      = add_mset c (mset (takeWhile (\<lambda>x. rank x = R8) (drop 8 (drop 8 shuffled))
                          @ tl (dropWhile (\<lambda>x. rank x = R8) (drop 8 (drop 8 shuffled)))))"
    using find_mset [OF Some] by simp
  then have "mset (allCards (gameState a))
      = mset (take 8 shuffled) + mset (take 8 (drop 8 shuffled)) + mset (drop 8 (drop 8 shuffled))"
    using assms initGame_found [OF Some] by (auto simp add: allCards_def simp del: drop_drop)
  then show ?thesis
    by (simp only: deal_mset)
next
  case None
  show ?thesis
  proof (cases "drop 8 (drop 8 shuffled)")
    case Nil
    then show ?thesis
      using assms initGame_empty by simp
  next
    case (Cons c cs)
    then have "mset (allCards (gameState a))
      = mset (take 8 shuffled) + mset (take 8 (drop 8 shuffled)) + mset (drop 8 (drop 8 shuffled))"
      using assms initGame_all_eights [OF None Cons] by (auto simp add: allCards_def simp del: drop_drop)
    then show ?thesis
      by (simp only: deal_mset)
  qed
qed

lemma aiTurn_cards:
  assumes d: "distinct (map card_id (allCards (gameState a)))"
  shows "mset (allCards (gameState (aiTurn a))) = mset (allCards (gameState a))"
proof (cases "currentTurn (gameState a) = AI \<and> status (gameState a) = Playing
    \<and> winner (gameState a) = None")
  case False
  then have "aiTurn a = a"
    by (auto simp add: aiTurn_def Let_def)
  then show ?thesis by simp
next
  case True
  then have g: "currentTurn (gameState a) = AI" "status (gameState a) = Playing"
    "winner (gameState a) = None"
    by simp_all
  show ?thesis
  proof (cases "find (\<lambda>x. isValidMove (gameState a) x \<and> rank x \<noteq> R8) (aiHand (gameState a))")
    case (Some c)
    then have m: "c \<in> set (aiHand (gameState a))"
      using find_Some_props by fastforce
    show ?thesis
      using playCard_cards [of c False a] m d by (simp add: aiTurn_non_eight [OF g Some])
  next
    case None
    note n = None
    show ?thesis
    proof (cases "find (isValidMove (gameState a)) (aiHand (gameState a))")
      case (Some c)
      then have m: "c \<in> set (aiHand (gameState a))"
        using find_Some_props by fastforce
      from d have dh: "distinct (map card_id (aiHand (gameState a)))"
        by (simp add: allCards_def)
      have h: "mset (aiHand (gameState a))
        = add_mset c (mset (filter (\<lambda>x. card_id x \<noteq> card_id c) (aiHand (gameState a))))"
        by (rule filter_id_mset [OF m dh])
      have "allCards (gameState (aiTurn a))
        = deck (gameState a) @ (discardPile (gameState a) @ [c]) @ playerHand (gameState a)
          @ filter (\<lambda>x. card_id x \<noteq> card_id c) (aiHand (gameState a))"
        by (simp add: aiTurn_eight(2) [OF g Some n] allCards_def checkWin_def)
      then show ?thesis
        using move_from_ai [OF h] by (simp only: allCards_def)
    next
      case None
      then have f: "filter (isValidMove (gameState a)) (aiHand (gameState a)) = []"
        by (simp add: find_None_filter)
      show ?thesis
      proof (cases "deck (gameState a) = []")
        case True
        then show ?thesis
          using g f by (simp add: aiTurn_def Let_def allCards_def)
      next
        case False
        then show ?thesis
          using g f draw_top [OF False] by (simp add: aiTurn_def Let_def allCards_def)
      qed
    qed
  qed
qed

lemma fire_cards:
  assumes "enabled a e" "distinct (map card_id (allCards (gameState a)))"
  shows "mset (allCards (gameState (fire a e))) = mset (allCards (gameState a))"
  using assms
  by (cases e)
    (simp_all add: clickHandCard_cards clickDrawPile_cards clickSuit_cards aiTurn_cards
      skipTurnTimeout_cards)

lemma step_cards:
  assumes "step D a a'" "distinct (map card_id D)" "mset (allCards (gameState a)) = mset D"
  shows "mset (allCards (gameState a')) = mset D"
  using assms
proof (cases rule: step.cases)
  case (restart shuffled)
  then show ?thesis by (simp add: initGame_cards)
next
  case (event e)
  from assms(2,3) have "distinct (map card_id (allCards (gameState a)))"
    using distinct_ids_mset by blast
  then show ?thesis
    using event assms(3) by (simp add: fire_cards)
qed

lemma reachable_cards:
  "reachable D a \<Longrightarrow> distinct (map card_id D) \<Longrightarrow> mset (allCards (gameState a)) = mset D"
proof (induction rule: reachable.induct)
  case (start shuffled a)
  then show ?case by (simp add: initGame_cards)
next
  case (after a a')
  then show ?case by (simp add: step_cards)
qed


subsection \<open>Runs of events\<close>

lemma run_reachable:
  "reachable D a \<Longrightarrow> runnable a es \<Longrightarrow> reachable D (run a es)"
proof (induction es arbitrary: a)
  case Nil
  then show ?case by simp
next
  case (Cons e es)
  from Cons.prems have "step D a (fire a e)"
    by (simp add: step.event)
  with Cons.prems(1) have "reachable D (fire a e)"
    by (rule reachable.after)
  with Cons show ?case by simp
qed

lemma mount_reachable: "initGame D \<noteq> None \<Longrightarrow> reachable D (mount D)"
  by (auto simp add: mount_def reachable.start [of D D])

text \<open>
  C6. Let \<open>D\<close> be a deck of 52 cards with pairwise distinct identifiers and let every
  shuffle be a permutation of \<open>D\<close>. In every state reachable after initialisation the
  deck, the discard pile, the player's hand and the AI's hand together hold exactly
  the cards of \<open>D\<close>: 52 cards with pairwise distinct identifiers, so no card is in two
  places, none is duplicated and none is lost. Every transition from such a state (a
  play, a draw, a suit selection, an AI move, a win, a skipped turn, a restart) leaves
  this collection of cards the same.
\<close>

theorem card_partition_preserved:
  assumes "length D = 52" "distinct (map card_id D)" "reachable D a"
  shows "mset (allCards (gameState a)) = mset D
    \<and> length (allCards (gameState a)) = 52
    \<and> distinct (map card_id (allCards (gameState a)))
    \<and> (\<forall>a'. step D a a' \<longrightarrow> mset (allCards (gameState a')) = mset (allCards (gameState a)))"
proof -
  have m: "mset (allCards (gameState a)) = mset D"
    by (rule reachable_cards [OF assms(3) assms(2)])
  have l: "length (allCards (gameState a)) = 52"
    using mset_eq_length [OF m] assms(1) by simp
  have d: "distinct (map card_id (allCards (gameState a)))"
    using distinct_ids_mset [OF m] assms(2) by simp
  have "\<forall>a'. step D a a' \<longrightarrow> mset (allCards (gameState a')) = mset (allCards (gameState a))"
    using step_cards [OF _ assms(2) m] m by simp
  with m l d show ?thesis by simp
qed


theorem card_partition_preserved_witness:
  "length heartsDeck = 52
   \<and> distinct (map card_id heartsDeck)
   \<and> runnable (mount heartsDeck) [ClickCard (mkCard RA Hearts), AiTimer, ClickDraw, AiTimer]
   \<and> mset (allCards (gameState (run (mount heartsDeck)
         [ClickCard (mkCard RA Hearts), AiTimer, ClickDraw, AiTimer]))) = mset heartsDeck
   \<and> length (allCards (gameState (run (mount heartsDeck)
         [ClickCard (mkCard RA Hearts), AiTimer, ClickDraw, AiTimer]))) = 52
   \<and> distinct (map card_id (allCards (gameState (run (mount heartsDeck)
         [ClickCard (mkCard RA Hearts), AiTimer, ClickDraw, AiTimer]))))
   \<and> length (playerHand (gameState (run (mount heartsDeck)
         [ClickCard (mkCard RA Hearts), AiTimer, ClickDraw, AiTimer]))) = 8
   \<and> length (aiHand (gameState (run (mount heartsDeck)
         [ClickCard (mkCard RA Hearts), AiTimer, ClickDraw, AiTimer]))) = 10
   \<and> length (deck (gameState (run (mount heartsDeck)
         [ClickCard (mkCard RA Hearts), AiTimer, ClickDraw, AiTimer]))) = 32
   \<and> length (discardPile (gameState (run (mount heartsDeck)
         [ClickCard (mkCard RA Hearts), AiTimer, ClickDraw, AiTimer]))) = 2
   \<and> mset (allCards (gameState (fire (run (mount heartsDeck)
         [ClickCard (mkCard RA Hearts), AiTimer, ClickDraw, AiTimer]) (ClickCard (mkCard R2 Hearts)))))
      = mset (allCards (gameState (run (mount heartsDeck)
         [ClickCard (mkCard RA Hearts), AiTimer, ClickDraw, AiTimer])))"
proof -
  let ?es = "[ClickCard (mkCard RA Hearts), AiTimer, ClickDraw, AiTimer]"
  have l: "length heartsDeck = 52"
    by (simp add: heartsDeck_def)
  have d: "distinct (map card_id heartsDeck)"
    by code_simp
  have i: "initGame heartsDeck \<noteq> None"
    by code_simp
  have rn: "runnable (mount heartsDeck) ?es"
    by code_simp
  have r: "reachable heartsDeck (run (mount heartsDeck) ?es)"
    by (rule run_reachable [OF mount_reachable [OF i] rn])
  have n: "length (playerHand (gameState (run (mount heartsDeck) ?es))) = 8"
    "length (aiHand (gameState (run (mount heartsDeck) ?es))) = 10"
    "length (deck (gameState (run (mount heartsDeck) ?es))) = 32"
    "length (discardPile (gameState (run (mount heartsDeck) ?es))) = 2"
    by code_simp+
  have e: "enabled (run (mount heartsDeck) ?es) (ClickCard (mkCard R2 Hearts))"
    by code_simp
  have s: "step heartsDeck (run (mount heartsDeck) ?es)
      (fire (run (mount heartsDeck) ?es) (ClickCard (mkCard R2 Hearts)))"
    by (rule step.event [OF e])
  show ?thesis
    using card_partition_preserved [OF l d r] rn n s l d by blast
qed


section \<open>Winner and status\<close>

lemma initGame_winner:
  "initGame shuffled = Some a \<Longrightarrow> status (gameState a) = Playing \<and> winner (gameState a) = None"
  by (auto simp add: initGame_def Let_def split: list.splits prod.splits if_splits)

lemma playCard_winner:
  assumes "status (gameState a) = Playing" "winner (gameState a) = None"
  shows "(status (gameState (playCard a c p)) = GameOver)
          = (winner (gameState (playCard a c p)) \<noteq> None)"
    and "winner (gameState (playCard a c p)) \<noteq> None \<Longrightarrow>
         (winner (gameState (playCard a c p)) = Some Player \<longrightarrow>
            playerHand (gameState (playCard a c p)) = [])
         \<and> (winner (gameState (playCard a c p)) = Some AI \<longrightarrow>
            aiHand (gameState (playCard a c p)) = [])"
  using assms
  by (auto simp add: playCard_def checkWin_def setHand_def Let_def split: if_splits)

lemma aiTurn_winner:
  assumes "(status (gameState a) = GameOver) = (winner (gameState a) \<noteq> None)"
  shows "(status (gameState (aiTurn a)) = GameOver) = (winner (gameState (aiTurn a)) \<noteq> None)"
    and "winner (gameState (aiTurn a)) \<noteq> winner (gameState a) \<Longrightarrow>
         status (gameState a) \<noteq> GameOver
         \<and> (winner (gameState (aiTurn a)) = Some Player \<longrightarrow>
            playerHand (gameState (aiTurn a)) = [])
         \<and> (winner (gameState (aiTurn a)) = Some AI \<longrightarrow>
            aiHand (gameState (aiTurn a)) = [])"
proof -
  consider (idle) "aiTurn a = a"
    | (eight) c where "currentTurn (gameState a) = AI" "status (gameState a) = Playing"
        "winner (gameState a) = None"
        "gameState (aiTurn a) =
          (fst (checkWin (gameState a)
             (filter (\<lambda>x. card_id x \<noteq> card_id c) (aiHand (gameState a))) AI))
            \<lparr>discardPile := discardPile (gameState a) @ [c],
             aiHand := filter (\<lambda>x. card_id x \<noteq> card_id c) (aiHand (gameState a)),
             activeSuit := Some (bestSuit (aiHand (gameState a)) c),
             currentTurn := Player\<rparr>"
    | (other) c where "status (gameState a) = Playing" "winner (gameState a) = None"
        "aiTurn a = playCard a c False"
    | (pass) "winner (gameState (aiTurn a)) = winner (gameState a)"
        "status (gameState (aiTurn a)) = status (gameState a)"
  proof (cases "currentTurn (gameState a) = AI \<and> status (gameState a) = Playing
      \<and> winner (gameState a) = None")
    case False
    then have "aiTurn a = a"
      by (auto simp add: aiTurn_def Let_def)
    then show ?thesis by (rule idle)
  next
    case True
    then have g: "currentTurn (gameState a) = AI" "status (gameState a) = Playing"
      "winner (gameState a) = None"
      by simp_all
    show ?thesis
    proof (cases "find (\<lambda>x. isValidMove (gameState a) x \<and> rank x \<noteq> R8) (aiHand (gameState a))")
      case (Some c)
      show ?thesis
        using g(2) g(3) aiTurn_non_eight [OF g Some] by (rule other)
    next
      case None
      note n = None
      show ?thesis
      proof (cases "find (isValidMove (gameState a)) (aiHand (gameState a))")
        case (Some c)
        show ?thesis
          using g aiTurn_eight(2) [OF g Some n] by (rule eight)
      next
        case None
        then have f: "filter (isValidMove (gameState a)) (aiHand (gameState a)) = []"
          by (simp add: find_None_filter)
        have "winner (gameState (aiTurn a)) = winner (gameState a)"
          "status (gameState (aiTurn a)) = status (gameState a)"
          using g f by (simp_all add: aiTurn_def Let_def)
        then show ?thesis by (rule pass)
      qed
    qed
  qed
  then have "(status (gameState (aiTurn a)) = GameOver) = (winner (gameState (aiTurn a)) \<noteq> None)
    \<and> (winner (gameState (aiTurn a)) \<noteq> winner (gameState a) \<longrightarrow>
         status (gameState a) \<noteq> GameOver
         \<and> (winner (gameState (aiTurn a)) = Some Player \<longrightarrow>
            playerHand (gameState (aiTurn a)) = [])
         \<and> (winner (gameState (aiTurn a)) = Some AI \<longrightarrow>
            aiHand (gameState (aiTurn a)) = []))"
  proof cases
    case idle
    then show ?thesis using assms by simp
  next
    case (eight c)
    then show ?thesis
      by (auto simp add: checkWin_def split: if_splits)
  next
    case (other c)
    then show ?thesis
      using playCard_winner [OF other(1) other(2), of c False] by auto
  next
    case pass
    then show ?thesis using assms by simp
  qed
  then show "(status (gameState (aiTurn a)) = GameOver) = (winner (gameState (aiTurn a)) \<noteq> None)"
    and "winner (gameState (aiTurn a)) \<noteq> winner (gameState a) \<Longrightarrow>
         status (gameState a) \<noteq> GameOver
         \<and> (winner (gameState (aiTurn a)) = Some Player \<longrightarrow>
            playerHand (gameState (aiTurn a)) = [])
         \<and> (winner (gameState (aiTurn a)) = Some AI \<longrightarrow>
            aiHand (gameState (aiTurn a)) = [])"
    by simp_all
qed

lemma fire_winner:
  assumes "(status (gameState a) = GameOver) = (winner (gameState a) \<noteq> None)"
  shows "(status (gameState (fire a e)) = GameOver) = (winner (gameState (fire a e)) \<noteq> None)"
    and "winner (gameState (fire a e)) \<noteq> winner (gameState a) \<Longrightarrow>
         status (gameState a) \<noteq> GameOver
         \<and> (winner (gameState (fire a e)) = Some Player \<longrightarrow>
            playerHand (gameState (fire a e)) = [])
         \<and> (winner (gameState (fire a e)) = Some AI \<longrightarrow>
            aiHand (gameState (fire a e)) = [])"
proof -
  have "(status (gameState (fire a e)) = GameOver) = (winner (gameState (fire a e)) \<noteq> None)
    \<and> (winner (gameState (fire a e)) \<noteq> winner (gameState a) \<longrightarrow>
         status (gameState a) \<noteq> GameOver
         \<and> (winner (gameState (fire a e)) = Some Player \<longrightarrow>
            playerHand (gameState (fire a e)) = [])
         \<and> (winner (gameState (fire a e)) = Some AI \<longrightarrow>
            aiHand (gameState (fire a e)) = []))"
  proof (cases e)
    case (ClickCard c)
    show ?thesis
    proof (cases "currentTurn (gameState a) \<noteq> Player \<or> status (gameState a) \<noteq> Playing")
      case True
      then have "fire a e = a"
        using ClickCard by (auto simp add: clickHandCard_def Let_def)
      then show ?thesis using assms by simp
    next
      case False
      then have p: "status (gameState a) = Playing" and f: "fire a e = playCard a c True"
        using ClickCard by (auto simp add: clickHandCard_def Let_def)
      from p assms have w: "winner (gameState a) = None"
        by auto
      show ?thesis
        using playCard_winner [OF p w, of c True] p w f by auto
    qed
  next
    case ClickDraw
    then show ?thesis
      using assms by (auto simp add: clickDrawPile_def handleDraw_def Let_def)
  next
    case (ClickSuit s)
    then show ?thesis
      using assms by (auto simp add: clickSuit_def handleSuitSelect_def)
  next
    case AiTimer
    then show ?thesis
      using aiTurn_winner [OF assms] by auto
  next
    case SkipTimer
    then show ?thesis
      using assms by (simp add: skipTurnTimeout_def)
  qed
  then show "(status (gameState (fire a e)) = GameOver) = (winner (gameState (fire a e)) \<noteq> None)"
    and "winner (gameState (fire a e)) \<noteq> winner (gameState a) \<Longrightarrow>
         status (gameState a) \<noteq> GameOver
         \<and> (winner (gameState (fire a e)) = Some Player \<longrightarrow>
            playerHand (gameState (fire a e)) = [])
         \<and> (winner (gameState (fire a e)) = Some AI \<longrightarrow>
            aiHand (gameState (fire a e)) = [])"
    by simp_all
qed

lemma reachable_winner:
  "reachable D a \<Longrightarrow> (status (gameState a) = GameOver) = (winner (gameState a) \<noteq> None)"
proof (induction rule: reachable.induct)
  case (start shuffled a)
  then show ?case by (simp add: initGame_winner)
next
  case (after a a')
  from after.hyps(2) show ?case
  proof (cases rule: step.cases)
    case (restart shuffled)
    then show ?thesis by (simp add: initGame_winner)
  next
    case (event e)
    then show ?thesis
      using fire_winner(1) [OF after.IH] by simp
  qed
qed

lemma playing_no_winner:
  "reachable D a \<Longrightarrow> status (gameState a) = Playing \<Longrightarrow> winner (gameState a) = None"
  using reachable_winner by fastforce


text \<open>
  C10. In every reachable state, if the status is \<open>game_over\<close> the winner is the
  player or the AI, and a winner is present only in status \<open>game_over\<close>. A
  transition that changes the winner either clears it (a restart) or is one in which
  the win check fired: it sets the status to \<open>game_over\<close> from another status in the
  same update, and the hand of the side it names as winner is empty.
\<close>

theorem winner_iff_game_over:
  assumes "reachable D a"
  shows "(status (gameState a) = GameOver \<longrightarrow>
            winner (gameState a) = Some Player \<or> winner (gameState a) = Some AI)
    \<and> (winner (gameState a) \<noteq> None \<longrightarrow> status (gameState a) = GameOver)
    \<and> (\<forall>a'. step D a a' \<longrightarrow> winner (gameState a') \<noteq> winner (gameState a) \<longrightarrow>
          winner (gameState a') = None
          \<or> (status (gameState a') = GameOver \<and> status (gameState a) \<noteq> GameOver
              \<and> (winner (gameState a') = Some Player \<longrightarrow> playerHand (gameState a') = [])
              \<and> (winner (gameState a') = Some AI \<longrightarrow> aiHand (gameState a') = [])))"
proof (intro conjI allI impI)
  note i = reachable_winner [OF assms]
  assume "status (gameState a) = GameOver"
  with i obtain w where "winner (gameState a) = Some w"
    by auto
  then show "winner (gameState a) = Some Player \<or> winner (gameState a) = Some AI"
    by (cases w) simp_all
next
  assume "winner (gameState a) \<noteq> None"
  with reachable_winner [OF assms] show "status (gameState a) = GameOver"
    by simp
next
  fix a'
  assume s: "step D a a'" and c: "winner (gameState a') \<noteq> winner (gameState a)"
  note i = reachable_winner [OF assms]
  from s show "winner (gameState a') = None
          \<or> (status (gameState a') = GameOver \<and> status (gameState a) \<noteq> GameOver
              \<and> (winner (gameState a') = Some Player \<longrightarrow> playerHand (gameState a') = [])
              \<and> (winner (gameState a') = Some AI \<longrightarrow> aiHand (gameState a') = []))"
  proof (cases rule: step.cases)
    case (restart shuffled)
    then show ?thesis by (simp add: initGame_winner)
  next
    case (event e)
    show ?thesis
      using fire_winner(1) [OF i, of e] fire_winner(2) [OF i, of e] c event by auto
  qed
qed

theorem winner_iff_game_over_witness:
  "status (gameState (run (mount heartsDeck) sevenHearts)) = Playing
   \<and> winner (gameState (run (mount heartsDeck) sevenHearts)) = None
   \<and> status (gameState (fire (run (mount heartsDeck) sevenHearts) (ClickCard (mkCard R9 Hearts))))
       = GameOver
   \<and> winner (gameState (fire (run (mount heartsDeck) sevenHearts) (ClickCard (mkCard R9 Hearts))))
       = Some Player
   \<and> playerHand (gameState (fire (run (mount heartsDeck) sevenHearts) (ClickCard (mkCard R9 Hearts))))
       = []"
proof -
  let ?a = "run (mount heartsDeck) sevenHearts"
  let ?a' = "fire ?a (ClickCard (mkCard R9 Hearts))"
  have i: "initGame heartsDeck \<noteq> None"
    by code_simp
  have rn: "runnable (mount heartsDeck) sevenHearts"
    by code_simp
  have r: "reachable heartsDeck ?a"
    by (rule run_reachable [OF mount_reachable [OF i] rn])
  have e: "enabled ?a (ClickCard (mkCard R9 Hearts))"
    by code_simp
  have s: "step heartsDeck ?a ?a'"
    by (rule step.event [OF e])
  have r': "reachable heartsDeck ?a'"
    by (rule reachable.after [OF r s])
  have p: "status (gameState ?a) = Playing"
    by code_simp
  have w: "winner (gameState ?a') = Some Player"
    by code_simp
  from winner_iff_game_over [OF r] p have n: "winner (gameState ?a) = None"
    by auto
  from winner_iff_game_over [OF r'] w have g: "status (gameState ?a') = GameOver"
    by simp
  from winner_iff_game_over [OF r] s w n have h: "playerHand (gameState ?a') = []"
    by auto
  from p n g w h show ?thesis
    by simp
qed

section \<open>Win detection\<close>

text \<open>
  Where the win check fires: a play of a card of another rank than 8 that empties the
  acting hand, by either side, and the AI's play of an 8 that empties its hand, end the
  game with the acting side as winner. Once the status is \<open>game_over\<close> no play, draw,
  suit choice or AI move changes anything.
\<close>

lemma last_card_wins:
  assumes "isValidMove (gameState a) c" "rank c \<noteq> R8"
    and "filter (\<lambda>x. card_id x \<noteq> card_id c)
           (if p then playerHand (gameState a) else aiHand (gameState a)) = []"
  shows "status (gameState (playCard a c p)) = GameOver"
    and "winner (gameState (playCard a c p)) = Some (if p then Player else AI)"
  using assms by (simp_all add: playCard_def checkWin_def setHand_def Let_def)

lemma ai_last_eight_wins:
  assumes "currentTurn (gameState a) = AI" "status (gameState a) = Playing"
      "winner (gameState a) = None"
    and "find (isValidMove (gameState a)) (aiHand (gameState a)) = Some c"
    and "find (\<lambda>x. isValidMove (gameState a) x \<and> rank x \<noteq> R8) (aiHand (gameState a)) = None"
    and "filter (\<lambda>x. card_id x \<noteq> card_id c) (aiHand (gameState a)) = []"
  shows "status (gameState (aiTurn a)) = GameOver"
    and "winner (gameState (aiTurn a)) = Some AI"
  using assms(6)
  by (simp_all add: aiTurn_eight(2) [OF assms(1) assms(2) assms(3) assms(4) assms(5)] checkWin_def)

lemma game_over_accepts_nothing:
  assumes "status (gameState a) = GameOver"
  shows "clickHandCard a c = a" and "clickDrawPile a = a" and "clickSuit a s = a"
    and "aiTurn a = a"
  using assms
  by (simp_all add: clickHandCard_def clickDrawPile_def clickSuit_def aiTurn_def Let_def)

text \<open>
  C1 at concrete states. The player holds one card, an eight, it is the player's turn
  and the status is \<open>playing\<close>: first in a small state written out by hand, then in
  the state reached from the shuffle \<open>eightLastDeck\<close> of all 52 cards after the player
  has played the hearts from ace to seven and the AI has drawn after each. The play is
  accepted and empties the hand, but the branch of \<open>playCard\<close> for rank 8 never calls
  \<open>checkWin\<close>: the status becomes \<open>suit_selection\<close> with no winner, and after the suit
  is chosen the game goes on in status \<open>playing\<close> with the player holding no card.
  The AI's own play of an 8 and every play of another rank do call \<open>checkWin\<close>.
\<close>

theorem player_last_eight_does_not_win:
  "playerHand (gameState lastEightApp) = [mkCard R8 Hearts]
   \<and> currentTurn (gameState lastEightApp) = Player
   \<and> status (gameState lastEightApp) = Playing
   \<and> isValidMove (gameState lastEightApp) (mkCard R8 Hearts)
   \<and> playerHand (gameState (clickHandCard lastEightApp (mkCard R8 Hearts))) = []
   \<and> status (gameState (clickHandCard lastEightApp (mkCard R8 Hearts))) = SuitSelection
   \<and> winner (gameState (clickHandCard lastEightApp (mkCard R8 Hearts))) = None
   \<and> status (gameState (clickSuit (clickHandCard lastEightApp (mkCard R8 Hearts)) Clubs)) = Playing
   \<and> winner (gameState (clickSuit (clickHandCard lastEightApp (mkCard R8 Hearts)) Clubs)) = None
   \<and> currentTurn (gameState (clickSuit (clickHandCard lastEightApp (mkCard R8 Hearts)) Clubs)) = AI
   \<and> length eightLastDeck = 52
   \<and> distinct (map card_id eightLastDeck)
   \<and> reachable eightLastDeck (run (mount eightLastDeck) sevenHearts)
   \<and> playerHand (gameState (run (mount eightLastDeck) sevenHearts)) = [mkCard R8 Spades]
   \<and> currentTurn (gameState (run (mount eightLastDeck) sevenHearts)) = Player
   \<and> status (gameState (run (mount eightLastDeck) sevenHearts)) = Playing
   \<and> playerHand (gameState (run (mount eightLastDeck)
        (sevenHearts @ [ClickCard (mkCard R8 Spades)]))) = []
   \<and> status (gameState (run (mount eightLastDeck)
        (sevenHearts @ [ClickCard (mkCard R8 Spades)]))) = SuitSelection
   \<and> winner (gameState (run (mount eightLastDeck)
        (sevenHearts @ [ClickCard (mkCard R8 Spades)]))) = None
   \<and> status (gameState (run (mount eightLastDeck)
        (sevenHearts @ [ClickCard (mkCard R8 Spades), ClickSuit Clubs]))) = Playing
   \<and> winner (gameState (run (mount eightLastDeck)
        (sevenHearts @ [ClickCard (mkCard R8 Spades), ClickSuit Clubs]))) = None
   \<and> playerHand (gameState (run (mount eightLastDeck)
        (sevenHearts @ [ClickCard (mkCard R8 Spades), ClickSuit Clubs]))) = []"
proof -
  have small: "playerHand (gameState lastEightApp) = [mkCard R8 Hearts]
   \<and> currentTurn (gameState lastEightApp) = Player
   \<and> status (gameState lastEightApp) = Playing
   \<and> isValidMove (gameState lastEightApp) (mkCard R8 Hearts)
   \<and> playerHand (gameState (clickHandCard lastEightApp (mkCard R8 Hearts))) = []
   \<and> status (gameState (clickHandCard lastEightApp (mkCard R8 Hearts))) = SuitSelection
   \<and> winner (gameState (clickHandCard lastEightApp (mkCard R8 Hearts))) = None
   \<and> status (gameState (clickSuit (clickHandCard lastEightApp (mkCard R8 Hearts)) Clubs)) = Playing
   \<and> winner (gameState (clickSuit (clickHandCard lastEightApp (mkCard R8 Hearts)) Clubs)) = None
   \<and> currentTurn (gameState (clickSuit (clickHandCard lastEightApp (mkCard R8 Hearts)) Clubs)) = AI"
    by (simp add: ex_defs clickHandCard_def playCard_def isValidMove_def setHand_def
      clickSuit_def handleSuitSelect_def Let_def)
  have l: "length eightLastDeck = 52"
    by (simp add: eightLastDeck_def swapCards_def heartsDeck_def)
  have d: "distinct (map card_id eightLastDeck)"
    by code_simp
  have i: "initGame eightLastDeck \<noteq> None"
    by code_simp
  have rn: "runnable (mount eightLastDeck) sevenHearts"
    by code_simp
  have r: "reachable eightLastDeck (run (mount eightLastDeck) sevenHearts)"
    by (rule run_reachable [OF mount_reachable [OF i] rn])
  have before: "playerHand (gameState (run (mount eightLastDeck) sevenHearts)) = [mkCard R8 Spades]"
    "currentTurn (gameState (run (mount eightLastDeck) sevenHearts)) = Player"
    "status (gameState (run (mount eightLastDeck) sevenHearts)) = Playing"
    by code_simp+
  have played: "playerHand (gameState (run (mount eightLastDeck)
        (sevenHearts @ [ClickCard (mkCard R8 Spades)]))) = []"
    "status (gameState (run (mount eightLastDeck)
        (sevenHearts @ [ClickCard (mkCard R8 Spades)]))) = SuitSelection"
    "winner (gameState (run (mount eightLastDeck)
        (sevenHearts @ [ClickCard (mkCard R8 Spades)]))) = None"
    by code_simp+
  have chosen: "status (gameState (run (mount eightLastDeck)
        (sevenHearts @ [ClickCard (mkCard R8 Spades), ClickSuit Clubs]))) = Playing"
    "winner (gameState (run (mount eightLastDeck)
        (sevenHearts @ [ClickCard (mkCard R8 Spades), ClickSuit Clubs]))) = None"
    "playerHand (gameState (run (mount eightLastDeck)
        (sevenHearts @ [ClickCard (mkCard R8 Spades), ClickSuit Clubs]))) = []"
    by code_simp+
  from small l d r before played chosen show ?thesis
    by blast
qed

theorem player_last_eight_does_not_win_witness:
  "status (gameState (run (mount eightLastDeck)
        (sevenHearts @ [ClickCard (mkCard R8 Spades)]))) \<noteq> GameOver"
  using player_last_eight_does_not_win by simp

end
